theory Spec2Isabelle
  imports Complex_Main
begin

section \<open>Vehicle monitor with HCNG safety subsystem: a shallow embedding of main.py\<close>

text \<open>
  Conventions of the embedding.
  \<^item> Python floats (times returned by \<open>time.time()\<close>, filtered values, scores) are
    idealised as \<open>real\<close>: rounding, infinities and NaN are outside the model.
  \<^item> Status values are the strings the source uses.
  \<^item> Calls to \<open>Logger\<close> and \<open>print\<close> only write to the console; they are left out
    except where a trace of events records them.
  \<^item> A Python exception is a value of \<open>py_error\<close> on the left of a sum.
  \<^item> The modules \<open>RPi.GPIO\<close>, \<open>spidev\<close> and \<open>obd\<close> are outside the repository: a raw gas
    sample (a 10-bit count of \<open>_read_adc\<close>, between 0 and 1023) and a telemetry dictionary
    are inputs; the calls on the GPIO module are recorded, and whether a call raises is an
    input too.
  \<^item> Threads: the sensor threads publish their state under a lock and the control loop
    reads it; what the loop reads in an iteration is an input of that iteration.
    \<open>KeyboardInterrupt\<close> is not modelled (\<open>main\<close> installs its own signal handlers).
\<close>

datatype py_error = ValueError | TypeError | ZeroDivisionError | RuntimeError

subsection \<open>Gas sensor (class GasSensor)\<close>

text \<open>The entries of \<open>CONFIG['gas_sensor']\<close> that the modelled methods read.\<close>

record gas_config =
  sample_rate :: real
  safe_max :: real
  warning_min :: real
  critical_min :: real
  confirmation_time :: real

text \<open>Python's \<open>int(x)\<close> on a float truncates towards zero.\<close>

definition py_int :: "real \<Rightarrow> int" where
  "py_int x = (if 0 \<le> x then \<lfloor>x\<rfloor> else \<lceil>x\<rceil>)"

text \<open>
  The data attributes of a \<open>GasSensor\<close>. \<open>readings\<close> is the deque, oldest sample first, and
  \<open>readings_maxlen\<close> its \<open>maxlen\<close>.
\<close>

record GasSensor =
  current_value :: int
  filtered_value :: real
  status :: string
  critical_start_time :: "real option"
  readings :: "int list"
  readings_maxlen :: nat

text \<open>
  \<open>GasSensor.__init__\<close>: \<open>window_size = int(config['sample_rate'] * 1.0)\<close> and
  \<open>deque(maxlen=window_size)\<close>, which raises \<open>ValueError\<close> for a negative \<open>maxlen\<close>.
\<close>

definition window_size :: "gas_config \<Rightarrow> int" where
  "window_size cfg = py_int (sample_rate cfg * 1)"

definition GasSensor_init :: "gas_config \<Rightarrow> py_error + GasSensor" where
  "GasSensor_init cfg =
     (if window_size cfg < 0 then Inl ValueError
      else Inr \<lparr> current_value = 0, filtered_value = 0, status = ''SAFE'',
                 critical_start_time = None, readings = [],
                 readings_maxlen = nat (window_size cfg) \<rparr>)"

text \<open>\<open>deque.append\<close> on a bounded deque: append on the right, discard on the left.\<close>

definition deque_append :: "nat \<Rightarrow> int list \<Rightarrow> int \<Rightarrow> int list" where
  "deque_append m xs x = (let ys = xs @ [x] in drop (length ys - m) ys)"

text \<open>
  \<open>GasSensor._determine_status\<close>, with the value of \<open>time.time()\<close> passed as
  \<open>current_time\<close>. It returns the updated sensor (only \<open>critical_start_time\<close> changes) and
  the status.
\<close>

definition determine_status ::
  "gas_config \<Rightarrow> GasSensor \<Rightarrow> real \<Rightarrow> real \<Rightarrow> GasSensor \<times> string" where
  "determine_status cfg s current_time v =
     (if critical_min cfg \<le> v then
        (let start = (case critical_start_time s of None \<Rightarrow> current_time | Some t \<Rightarrow> t);
             s1 = s\<lparr>critical_start_time := Some start\<rparr>
         in if confirmation_time cfg \<le> current_time - start
            then (s1, ''CRITICAL'')
            else (s1, ''WARNING''))
      else if warning_min cfg \<le> v then
        (s\<lparr>critical_start_time := None\<rparr>, ''WARNING'')
      else
        (s\<lparr>critical_start_time := None\<rparr>, ''SAFE''))"

text \<open>
  One iteration of the \<open>try\<close> block of \<open>GasSensor._read_loop\<close>, for the sample
  \<open>raw_value\<close> returned by \<open>_read_adc\<close> and the clock value read inside
  \<open>_determine_status\<close>.
\<close>

definition moving_average :: "int list \<Rightarrow> int \<Rightarrow> real" where
  "moving_average rs raw_value =
     (if rs \<noteq> [] then real_of_int (sum_list rs) / real (length rs) else real_of_int raw_value)"

definition process_sample :: "gas_config \<Rightarrow> GasSensor \<Rightarrow> real \<times> int \<Rightarrow> GasSensor" where
  "process_sample cfg s x =
     (let current_time = fst x; raw_value = snd x;
          rs = deque_append (readings_maxlen s) (readings s) raw_value;
          filtered = moving_average rs raw_value;
          (s1, st) = determine_status cfg (s\<lparr>readings := rs\<rparr>) current_time filtered
      in s1\<lparr>current_value := raw_value, filtered_value := filtered, status := st\<rparr>)"

text \<open>
  The loop over the samples that were read: the list of sensor states published after each
  iteration. An iteration in which \<open>_read_adc\<close> raises changes nothing and is not listed.
  \<open>sleep_time = 1.0 / sample_rate\<close> is computed before the loop and outside its \<open>try\<close>, so a
  zero sample rate ends the thread before any sample is processed.
\<close>

fun read_states :: "gas_config \<Rightarrow> GasSensor \<Rightarrow> (real \<times> int) list \<Rightarrow> GasSensor list" where
  "read_states cfg s [] = []"
| "read_states cfg s (x # xs) =
     (let s' = process_sample cfg s x in s' # read_states cfg s' xs)"

definition read_loop ::
  "gas_config \<Rightarrow> GasSensor \<Rightarrow> (real \<times> int) list \<Rightarrow> py_error + GasSensor list" where
  "read_loop cfg s xs =
     (if sample_rate cfg = 0 then Inl ZeroDivisionError else Inr (read_states cfg s xs))"

text \<open>
  The monitor from construction: \<open>GasSensor(config)\<close> followed by the reading thread.
\<close>

definition gas_monitor :: "gas_config \<Rightarrow> (real \<times> int) list \<Rightarrow> py_error + GasSensor list" where
  "gas_monitor cfg xs =
     (case GasSensor_init cfg of Inl e \<Rightarrow> Inl e | Inr s0 \<Rightarrow> read_loop cfg s0 xs)"

definition get_reading :: "GasSensor \<Rightarrow> int \<times> real \<times> string" where
  "get_reading s = (current_value s, filtered_value s, status s)"

text \<open>The reference configuration \<open>CONFIG['gas_sensor']\<close>.\<close>

definition CONFIG_gas_sensor :: gas_config where
  "CONFIG_gas_sensor =
     \<lparr> sample_rate = 10, safe_max = 200, warning_min = 200, critical_min = 400,
       confirmation_time = 2 \<rparr>"

subsection \<open>Valve controller (class ValveController)\<close>

record valve_config =
  gpio_pin :: nat
  active_high :: bool
  auto_shutoff :: bool

datatype level = HIGH | LOW

text \<open>
  The \<open>RPi.GPIO\<close> module is outside the repository. The model counts the calls the
  controller makes on it and records, oldest first, those that return: the physical line
  carries the level of the last \<open>Output\<close> until a \<open>Cleanup\<close> releases the pin. Whether the
  \<open>n\<close>-th call raises is given by \<open>gpio_raises\<close>, which belongs to the environment and is
  never written. \<open>gpio_available\<close> is \<open>self.GPIO is not None\<close>.
\<close>

datatype gpio_call = Setmode | Setwarnings | Setup nat | Output nat level | Cleanup nat

record ValveController =
  valve_open :: bool
  gpio_available :: bool
  gpio_raises :: "nat \<Rightarrow> bool"
  gpio_count :: nat
  gpio_calls :: "gpio_call list"


definition closed_level :: "valve_config \<Rightarrow> level" where
  "closed_level cfg = (if active_high cfg then LOW else HIGH)"

text \<open>
  One call on the GPIO module: the controller after it, and the exception if it raised.
\<close>

definition gpio_invoke :: "ValveController \<Rightarrow> gpio_call \<Rightarrow> ValveController \<times> py_error option" where
  "gpio_invoke v c =
     (let v' = v\<lparr>gpio_count := Suc (gpio_count v)\<rparr>
      in if gpio_raises v (gpio_count v) then (v', Some RuntimeError)
         else (v'\<lparr>gpio_calls := gpio_calls v @ [c]\<rparr>, None))"

text \<open>
  \<open>ValveController._set_gpio_state\<close>. Like every method below that can raise, it returns
  the controller as the method leaves it together with the exception, if any.
\<close>

definition set_gpio_state ::
  "valve_config \<Rightarrow> ValveController \<Rightarrow> bool \<Rightarrow> ValveController \<times> py_error option" where
  "set_gpio_state cfg v opn =
     (if \<not> gpio_available v then (v, None)
      else (let state = (if active_high cfg then (if opn then HIGH else LOW)
                         else (if opn then LOW else HIGH))
            in gpio_invoke v (Output (gpio_pin cfg) state)))"

text \<open>
  \<open>ValveController.__init__\<close>; the arguments say whether \<open>RPi.GPIO\<close> was imported and which of
  its calls raise. The first exception of the \<open>try\<close> block ends the set-up and is logged.
\<close>

definition ValveController_init :: "valve_config \<Rightarrow> bool \<Rightarrow> (nat \<Rightarrow> bool) \<Rightarrow> ValveController" where
  "ValveController_init cfg gpio raises =
     (let v = \<lparr> valve_open = True, gpio_available = gpio, gpio_raises = raises,
                 gpio_count = 0, gpio_calls = [] \<rparr>
      in if \<not> gpio then v
         else (case gpio_invoke v Setmode of
                 (v1, Some e) \<Rightarrow> v1
               | (v1, None) \<Rightarrow>
                   (case gpio_invoke v1 Setwarnings of
                      (v2, Some e) \<Rightarrow> v2
                    | (v2, None) \<Rightarrow>
                        (case gpio_invoke v2 (Setup (gpio_pin cfg)) of
                           (v3, Some e) \<Rightarrow> v3
                         | (v3, None) \<Rightarrow> fst (set_gpio_state cfg v3 True)))))"

text \<open>
  \<open>open_valve\<close> and \<open>close_valve\<close> write to the pin before they assign \<open>valve_open\<close>: a
  write that raises leaves \<open>valve_open\<close> as it was.
\<close>

definition open_valve :: "valve_config \<Rightarrow> ValveController \<Rightarrow> ValveController \<times> py_error option" where
  "open_valve cfg v =
     (if \<not> valve_open v then
        (case set_gpio_state cfg v True of
           (v1, Some e) \<Rightarrow> (v1, Some e)
         | (v1, None) \<Rightarrow> (v1\<lparr>valve_open := True\<rparr>, None))
      else (v, None))"

definition close_valve :: "valve_config \<Rightarrow> ValveController \<Rightarrow> ValveController \<times> py_error option" where
  "close_valve cfg v =
     (if valve_open v then
        (case set_gpio_state cfg v False of
           (v1, Some e) \<Rightarrow> (v1, Some e)
         | (v1, None) \<Rightarrow> (v1\<lparr>valve_open := False\<rparr>, None))
      else (v, None))"

text \<open>\<open>emergency_shutoff\<close>: close, wait 0.1 s, then write the closed level once more.\<close>

definition emergency_shutoff ::
  "valve_config \<Rightarrow> ValveController \<Rightarrow> ValveController \<times> py_error option" where
  "emergency_shutoff cfg v =
     (case close_valve cfg v of
        (v1, Some e) \<Rightarrow> (v1, Some e)
      | (v1, None) \<Rightarrow> set_gpio_state cfg v1 False)"

definition is_open :: "ValveController \<Rightarrow> bool" where
  "is_open v = valve_open v"

text \<open>
  \<open>ValveController.cleanup\<close>: with a GPIO module, \<open>open_valve()\<close> and then
  \<open>GPIO.cleanup(pin)\<close>, inside \<open>try\<close> with a bare \<open>except: pass\<close>; without one, nothing.
\<close>

definition cleanup :: "valve_config \<Rightarrow> ValveController \<Rightarrow> ValveController" where
  "cleanup cfg v =
     (if gpio_available v then
        (case open_valve cfg v of
           (v1, Some e) \<Rightarrow> v1
         | (v1, None) \<Rightarrow> fst (gpio_invoke v1 (Cleanup (gpio_pin cfg))))
      else v)"

text \<open>A GPIO module none of whose calls raises.\<close>

definition gpio_works :: "nat \<Rightarrow> bool" where
  "gpio_works n = False"

text \<open>
  A GPIO module every call of which raises: the state after the logged
  \<open>GPIO setup failed\<close>.
\<close>

definition gpio_broken :: "nat \<Rightarrow> bool" where
  "gpio_broken n = True"

definition CONFIG_valve :: valve_config where
  "CONFIG_valve = \<lparr> gpio_pin = 17, active_high = True, auto_shutoff = True \<rparr>"

subsection \<open>AI inference engine (class AIInferenceEngine)\<close>

text \<open>
  The entries of \<open>CONFIG['ai']\<close>. Its \<open>warning_min\<close> and \<open>critical_min\<close> carry the prefix
  \<open>ai_\<close> here, the plain names being the gas sensor's. \<open>norm_ranges\<close> maps a channel
  name to a Python list.
\<close>

record ai_config =
  inference_interval :: real
  normal_max :: real
  ai_warning_min :: real
  ai_critical_min :: real
  norm_ranges :: "string \<rightharpoonup> real list"

text \<open>
  A value stored in a telemetry dictionary: \<open>None\<close>, a number, or an object that
  \<open>float()\<close> rejects (a list, say), for which \<open>float()\<close> raises \<open>TypeError\<close>.
\<close>

datatype py_value = PyNone | PyNumber real | PyOther

definition py_float :: "py_value \<Rightarrow> py_error + real" where
  "py_float x = (case x of PyNumber r \<Rightarrow> Inr r | _ \<Rightarrow> Inl TypeError)"

record AIInferenceEngine =
  latest_score :: real
  latest_status :: string
  inference_count :: nat

definition AIInferenceEngine_init :: AIInferenceEngine where
  "AIInferenceEngine_init = \<lparr> latest_score = 0, latest_status = ''UNKNOWN'', inference_count = 0 \<rparr>"

text \<open>The source line \<open>value = max(min_val, min(max_val, value))\<close>.\<close>

definition clamp :: "real \<Rightarrow> real \<Rightarrow> real \<Rightarrow> real" where
  "clamp min_val max_val v = max min_val (min max_val v)"

text \<open>
  \<open>normalize_value\<close>. The unpacking \<open>min_val, max_val = norm_range\<close> raises
  \<open>ValueError\<close> unless the list has two entries.
\<close>

definition normalize_value :: "ai_config \<Rightarrow> real \<Rightarrow> string \<Rightarrow> py_error + real" where
  "normalize_value cfg v param_name =
     (let norm_range = (case norm_ranges cfg param_name of None \<Rightarrow> [0, 100] | Some r \<Rightarrow> r)
      in case norm_range of
           [min_val, max_val] \<Rightarrow>
             (let v' = clamp min_val max_val v
              in if min_val < max_val then Inr ((v' - min_val) / (max_val - min_val))
                 else Inr 0)
         | _ \<Rightarrow> Inl ValueError)"

definition feature_order :: "string list" where
  "feature_order =
     [''rpm'', ''speed'', ''coolant_temp'', ''throttle_pos'', ''intake_pressure'', ''engine_load'']"

text \<open>The \<open>for\<close> loop of \<open>preprocess\<close>; an exception ends it.\<close>

fun preprocess_params ::
  "ai_config \<Rightarrow> (string \<rightharpoonup> py_value) \<Rightarrow> string list \<Rightarrow> real list \<Rightarrow> py_error + real list" where
  "preprocess_params cfg obd_data [] features = Inr features"
| "preprocess_params cfg obd_data (param # params) features =
     (let raw_value = (case obd_data param of None \<Rightarrow> PyNumber 0 | Some x \<Rightarrow> x);
          raw_value = (if raw_value = PyNone then PyNumber 0 else raw_value)
      in case py_float raw_value of
           Inl e \<Rightarrow> Inl e
         | Inr x \<Rightarrow>
             (case normalize_value cfg x param of
                Inl e \<Rightarrow> Inl e
              | Inr normalized \<Rightarrow>
                  preprocess_params cfg obd_data params (features @ [normalized])))"

definition preprocess :: "ai_config \<Rightarrow> (string \<rightharpoonup> py_value) \<Rightarrow> py_error + real list" where
  "preprocess cfg obd_data = preprocess_params cfg obd_data feature_order []"

text \<open>
  The module-level generator of \<open>random\<close>: the sequence of values \<open>random.random()\<close> will
  return is fixed by the seed, and \<open>drawn\<close> counts the values taken so far.
  \<open>random.uniform(a, b)\<close> is \<open>a + (b - a) * random()\<close>.
\<close>

record random_state =
  outputs :: "nat \<Rightarrow> real"
  drawn :: nat

definition random_random :: "random_state \<Rightarrow> real \<times> random_state" where
  "random_random g = (outputs g (drawn g), g\<lparr>drawn := Suc (drawn g)\<rparr>)"

definition random_uniform :: "real \<Rightarrow> real \<Rightarrow> random_state \<Rightarrow> real \<times> random_state" where
  "random_uniform a b g = (let (u, g') = random_random g in (a + (b - a) * u, g'))"

text \<open>
  \<open>run_inference\<close> returns the engine, the generator and the pair handed to the caller.
  Every exception of the \<open>try\<close> block is raised by \<open>preprocess\<close>, before the generator is
  used or the engine written.
\<close>

definition run_inference ::
  "ai_config \<Rightarrow> AIInferenceEngine \<Rightarrow> random_state \<Rightarrow> (string \<rightharpoonup> py_value)
     \<Rightarrow> AIInferenceEngine \<times> random_state \<times> (real \<times> string)" where
  "run_inference cfg e g obd_data =
     (case preprocess cfg obd_data of
        Inl err \<Rightarrow> (e, g, (0, ''ERROR''))
      | Inr features \<Rightarrow>
          (let deviations = map (\<lambda>f. \<bar>f - 1 / 2\<bar>) features;
               avg_deviation = (if 0 < length deviations
                                then sum_list deviations / real (length deviations) else 0);
               score0 = min (avg_deviation * 2) 1;
               (noise, g') = random_uniform (- (5 / 100)) (5 / 100) g;
               score = max 0 (min 1 (score0 + noise));
               st = (if ai_critical_min cfg \<le> score then ''CRITICAL''
                     else if ai_warning_min cfg \<le> score then ''WARNING''
                     else ''NORMAL'')
           in (e\<lparr>latest_score := score, latest_status := st,
                  inference_count := Suc (inference_count e)\<rparr>,
               g', (score, st))))"

definition get_latest_result :: "AIInferenceEngine \<Rightarrow> real \<times> string" where
  "get_latest_result e = (latest_score e, latest_status e)"

definition CONFIG_ai :: ai_config where
  "CONFIG_ai =
     \<lparr> inference_interval = 1 / 2, normal_max = 3 / 10, ai_warning_min = 3 / 10,
       ai_critical_min = 7 / 10,
       norm_ranges = [''rpm'' \<mapsto> [0, 6000], ''speed'' \<mapsto> [0, 200],
                      ''coolant_temp'' \<mapsto> [0, 120], ''throttle_pos'' \<mapsto> [0, 100],
                      ''intake_pressure'' \<mapsto> [0, 255], ''engine_load'' \<mapsto> [0, 100]] \<rparr>"

subsection \<open>Main system (class VehicleMonitorSystem)\<close>

record system_config =
  cfg_gas :: gas_config
  cfg_valve :: valve_config
  cfg_ai :: ai_config

definition CONFIG :: system_config where
  "CONFIG = \<lparr> cfg_gas = CONFIG_gas_sensor, cfg_valve = CONFIG_valve, cfg_ai = CONFIG_ai \<rparr>"

text \<open>
  The attributes of the system the control loop writes, with the generator of \<open>random\<close>
  that \<open>run_inference\<close> draws from. The gas sensor and the OBD interface publish their state
  from their own threads; the loop only reads them, so what it reads in an iteration is
  part of that iteration's input.
\<close>

record VehicleMonitorSystem =
  running :: bool
  emergency_shutdown :: bool
  valve :: ValveController
  ai_engine :: AIInferenceEngine
  rng :: random_state

text \<open>
  One iteration's input: the value of \<open>time.time()\<close> at its top, what
  \<open>gas_sensor.get_reading()\<close> returns to the gas check and, later, to the status report,
  and what \<open>obd.get_latest_data()\<close> returns.
\<close>

record tick =
  tick_time :: real
  gas_reading :: "int \<times> real \<times> string"
  gas_reading_display :: "int \<times> real \<times> string"
  obd_latest :: "string \<rightharpoonup> py_value"

record loop_vars =
  last_gas_check :: real
  last_ai_check :: real
  last_display :: real

text \<open>
  What the loop does, in order: a call of \<open>valve.emergency_shutoff()\<close> with the exception
  it raised, if any; a call of \<open>ai_engine.run_inference\<close> with its result; and a status
  report to the console with the gas status, the latest AI result, \<open>valve.is_open()\<close> and
  the emergency flag it prints.
\<close>

datatype event =
    EmergencyShutoff "py_error option"
  | Inference "real \<times> string"
  | DisplayStatus string "real \<times> string" bool bool

text \<open>The number of calls of \<open>emergency_shutoff\<close> among the events.\<close>

fun shutoff_calls :: "event list \<Rightarrow> nat" where
  "shutoff_calls [] = 0"
| "shutoff_calls (EmergencyShutoff r # evs) = Suc (shutoff_calls evs)"
| "shutoff_calls (ev # evs) = shutoff_calls evs"

text \<open>
  \<open>start\<close>: \<open>initialize\<close> builds the valve controller, then the gas sensor, whose
  constructor may raise, in which case \<open>initialize\<close> and \<open>start\<close> return \<open>False\<close> and
  \<open>running\<close> stays \<open>False\<close>. The result is the flag returned and the system.
\<close>

definition start ::
  "system_config \<Rightarrow> bool \<Rightarrow> (nat \<Rightarrow> bool) \<Rightarrow> random_state \<Rightarrow> bool \<times> VehicleMonitorSystem" where
  "start cfg gpio raises g =
     (let sys = \<lparr> running = False, emergency_shutdown = False,
                   valve = ValveController_init (cfg_valve cfg) gpio raises,
                   ai_engine = AIInferenceEngine_init, rng = g \<rparr>
      in case GasSensor_init (cfg_gas cfg) of
           Inl e \<Rightarrow> (False, sys)
         | Inr s \<Rightarrow> (True, sys\<lparr>running := True\<rparr>))"

text \<open>
  \<open>_check_gas_safety\<close>. Its \<open>try\<close> block catches an exception of
  \<open>valve.emergency_shutoff()\<close> before \<open>self.emergency_shutdown = True\<close> is reached: the
  error is logged and the flag stays as it was.
\<close>

definition check_gas_safety ::
  "system_config \<Rightarrow> VehicleMonitorSystem \<Rightarrow> tick \<Rightarrow> VehicleMonitorSystem \<times> event list" where
  "check_gas_safety cfg sys t =
     (let (raw, filtered, st) = gas_reading t
      in if st = ''CRITICAL'' \<and> auto_shutoff (cfg_valve cfg) then
           (if \<not> emergency_shutdown sys then
              (case emergency_shutoff (cfg_valve cfg) (valve sys) of
                 (v1, None) \<Rightarrow>
                   (sys\<lparr>valve := v1, emergency_shutdown := True\<rparr>, [EmergencyShutoff None])
               | (v1, Some e) \<Rightarrow>
                   (sys\<lparr>valve := v1\<rparr>, [EmergencyShutoff (Some e)]))
            else (sys, []))
         else (sys, []))"

text \<open>\<open>_run_ai_inference\<close>: inference runs when the dictionary has a \<open>'timestamp'\<close> key.\<close>

definition run_ai_inference ::
  "system_config \<Rightarrow> VehicleMonitorSystem \<Rightarrow> tick \<Rightarrow> VehicleMonitorSystem \<times> event list" where
  "run_ai_inference cfg sys t =
     (let obd_data = obd_latest t
      in if obd_data ''timestamp'' \<noteq> None then
           (let (e', g', res) = run_inference (cfg_ai cfg) (ai_engine sys) (rng sys) obd_data
            in (sys\<lparr>ai_engine := e', rng := g'\<rparr>, [Inference res]))
         else (sys, []))"

text \<open>\<open>_display_status\<close> reads and prints; it writes nothing.\<close>

definition display_status ::
  "system_config \<Rightarrow> VehicleMonitorSystem \<Rightarrow> tick \<Rightarrow> VehicleMonitorSystem \<times> event list" where
  "display_status cfg sys t =
     (let (raw, filtered, st) = gas_reading_display t
      in (sys, [DisplayStatus st (get_latest_result (ai_engine sys)) (is_open (valve sys))
                  (emergency_shutdown sys)]))"

text \<open>The body of the \<open>while\<close> loop of \<open>_main_loop\<close>, up to its \<open>time.sleep(0.01)\<close>.\<close>

definition main_loop_body ::
  "system_config \<Rightarrow> VehicleMonitorSystem \<Rightarrow> loop_vars \<Rightarrow> tick
     \<Rightarrow> VehicleMonitorSystem \<times> loop_vars \<times> event list" where
  "main_loop_body cfg sys lv t =
     (let now = tick_time t;
          (sys1, lv1, ev1) =
            (if 1 / 10 \<le> now - last_gas_check lv
             then (let (s', ev) = check_gas_safety cfg sys t
                   in (s', lv\<lparr>last_gas_check := now\<rparr>, ev))
             else (sys, lv, []));
          (sys2, lv2, ev2) =
            (if 1 / 2 \<le> now - last_ai_check lv1
             then (let (s', ev) = run_ai_inference cfg sys1 t
                   in (s', lv1\<lparr>last_ai_check := now\<rparr>, ev))
             else (sys1, lv1, []));
          (sys3, lv3, ev3) =
            (if 2 \<le> now - last_display lv2
             then (let (s', ev) = display_status cfg sys2 t
                   in (s', lv2\<lparr>last_display := now\<rparr>, ev))
             else (sys2, lv2, []))
      in (sys3, lv3, ev1 @ ev2 @ ev3))"

text \<open>The first step of an iteration on its own: the gas check, run or skipped.\<close>

definition gas_step ::
  "system_config \<Rightarrow> VehicleMonitorSystem \<Rightarrow> loop_vars \<Rightarrow> tick
     \<Rightarrow> VehicleMonitorSystem \<times> event list" where
  "gas_step cfg sys lv t =
     (if 1 / 10 \<le> tick_time t - last_gas_check lv then check_gas_safety cfg sys t else (sys, []))"

text \<open>
  The \<open>while self.running and not self.emergency_shutdown\<close> loop over the iterations the
  thread gets to run: the final system and the events in order.
\<close>

fun main_loop_from ::
  "system_config \<Rightarrow> VehicleMonitorSystem \<Rightarrow> loop_vars \<Rightarrow> tick list
     \<Rightarrow> VehicleMonitorSystem \<times> event list" where
  "main_loop_from cfg sys lv [] = (sys, [])"
| "main_loop_from cfg sys lv (t # ts) =
     (if running sys \<and> \<not> emergency_shutdown sys then
        (let (sys', lv', ev) = main_loop_body cfg sys lv t;
             (sys'', evs) = main_loop_from cfg sys' lv' ts
         in (sys'', ev @ evs))
      else (sys, []))"

definition main_loop ::
  "system_config \<Rightarrow> VehicleMonitorSystem \<Rightarrow> tick list \<Rightarrow> VehicleMonitorSystem \<times> event list" where
  "main_loop cfg sys ts =
     main_loop_from cfg sys \<lparr> last_gas_check = 0, last_ai_check = 0, last_display = 0 \<rparr> ts"

text \<open>
  \<open>stop\<close>, once the loop thread has been joined: \<open>running\<close> is cleared and the valve
  controller cleaned up. Stopping the sensor threads writes nothing the model holds.
\<close>

definition stop :: "system_config \<Rightarrow> VehicleMonitorSystem \<Rightarrow> VehicleMonitorSystem" where
  "stop cfg sys = sys\<lparr>running := False, valve := cleanup (cfg_valve cfg) (valve sys)\<rparr>"

text \<open>A whole run: \<open>start\<close>, the loop over the given iterations, then \<open>stop\<close>.\<close>

definition run_system ::
  "system_config \<Rightarrow> bool \<Rightarrow> (nat \<Rightarrow> bool) \<Rightarrow> random_state \<Rightarrow> tick list
     \<Rightarrow> VehicleMonitorSystem \<times> event list" where
  "run_system cfg gpio raises g ts =
     (let (ok, sys) = start cfg gpio raises g;
          (sys', evs) = (if ok then main_loop cfg sys ts else (sys, []))
      in (stop cfg sys', evs))"

subsection \<open>Inputs for the concrete runs\<close>

text \<open>
  A telemetry snapshot at the midpoints of the configured ranges, a generator whose
  \<open>random()\<close> always returns 0.5 (so that \<open>uniform(-0.05, 0.05)\<close> is 0), and an iteration
  input at a given clock reading with a given gas reading, the same for the gas check and
  the status report.
\<close>

definition midpoint_snapshot :: "string \<rightharpoonup> py_value" where
  "midpoint_snapshot =
     [''timestamp'' \<mapsto> PyNumber 100, ''rpm'' \<mapsto> PyNumber 3000, ''speed'' \<mapsto> PyNumber 100,
      ''coolant_temp'' \<mapsto> PyNumber 60, ''throttle_pos'' \<mapsto> PyNumber 50,
      ''intake_pressure'' \<mapsto> PyNumber 127, ''engine_load'' \<mapsto> PyNumber 50]"

definition fixed_rng :: random_state where
  "fixed_rng = \<lparr> outputs = (\<lambda>n. 1 / 2), drawn = 0 \<rparr>"

definition tick_at :: "real \<Rightarrow> int \<times> real \<times> string \<Rightarrow> tick" where
  "tick_at now reading =
     \<lparr> tick_time = now, gas_reading = reading, gas_reading_display = reading,
       obd_latest = midpoint_snapshot \<rparr>"

section \<open>Properties of the gas monitor\<close>

lemmas gas_defs =
  gas_monitor_def GasSensor_init_def read_loop_def window_size_def py_int_def
  process_sample_def determine_status_def moving_average_def deque_append_def
  CONFIG_gas_sensor_def Let_def

subsection \<open>Episodes of the confirmation state machine\<close>

lemma read_states_length: "length (read_states cfg s xs) = length xs"
  by (induction xs arbitrary: s) (simp_all add: Let_def)

lemma process_sample_critical:
  assumes "status (process_sample cfg s x) = ''CRITICAL''"
  shows "\<exists>c. critical_start_time (process_sample cfg s x) = Some c
           \<and> confirmation_time cfg \<le> fst x - c
           \<and> critical_min cfg \<le> filtered_value (process_sample cfg s x)"
  using assms
  by (auto simp: process_sample_def determine_status_def Let_def split: if_splits option.splits)

lemma process_sample_start:
  assumes "critical_start_time (process_sample cfg s x) = Some c"
  shows "critical_min cfg \<le> filtered_value (process_sample cfg s x)
           \<and> (critical_start_time s = None \<and> c = fst x \<or> critical_start_time s = Some c)"
  using assms
  by (auto simp: process_sample_def determine_status_def Let_def split: if_splits option.splits)

lemma episode_start:
  assumes "j < length xs"
    and "critical_start_time (read_states cfg s xs ! j) = Some c"
  shows "(\<exists>i\<le>j. c = fst (xs ! i)
            \<and> (\<forall>k. i \<le> k \<and> k \<le> j \<longrightarrow> critical_min cfg \<le> filtered_value (read_states cfg s xs ! k)))
         \<or> (critical_start_time s = Some c
            \<and> (\<forall>k\<le>j. critical_min cfg \<le> filtered_value (read_states cfg s xs ! k)))"
  using assms
proof (induction xs arbitrary: s j)
  case Nil
  then show ?case by simp
next
  case (Cons x xs)
  let ?s' = "process_sample cfg s x"
  show ?case
  proof (cases j)
    case 0
    with Cons.prems have "critical_start_time ?s' = Some c" by (simp add: Let_def)
    from process_sample_start[OF this] 0 show ?thesis
      by (auto simp: Let_def)
  next
    case (Suc j')
    with Cons.prems have j': "j' < length xs"
      and c: "critical_start_time (read_states cfg ?s' xs ! j') = Some c"
      by (simp_all add: Let_def)
    from Cons.IH[OF j' c] show ?thesis
    proof
      assume "\<exists>i\<le>j'. c = fst (xs ! i)
            \<and> (\<forall>k. i \<le> k \<and> k \<le> j' \<longrightarrow> critical_min cfg \<le> filtered_value (read_states cfg ?s' xs ! k))"
      then obtain i where i: "i \<le> j'" "c = fst (xs ! i)"
        "\<forall>k. i \<le> k \<and> k \<le> j' \<longrightarrow> critical_min cfg \<le> filtered_value (read_states cfg ?s' xs ! k)"
        by blast
      have "\<forall>k. Suc i \<le> k \<and> k \<le> j \<longrightarrow> critical_min cfg \<le> filtered_value (read_states cfg s (x # xs) ! k)"
      proof (intro allI impI)
        fix k assume k: "Suc i \<le> k \<and> k \<le> j"
        then obtain k' where "k = Suc k'" by (cases k) auto
        with k i(3) Suc show "critical_min cfg \<le> filtered_value (read_states cfg s (x # xs) ! k)"
          by (simp add: Let_def)
      qed
      with i Suc have "\<exists>i\<le>j. c = fst ((x # xs) ! i)
            \<and> (\<forall>k. i \<le> k \<and> k \<le> j \<longrightarrow> critical_min cfg \<le> filtered_value (read_states cfg s (x # xs) ! k))"
        by (intro exI[of _ "Suc i"]) simp
      then show ?thesis ..
    next
      assume a: "critical_start_time ?s' = Some c
            \<and> (\<forall>k\<le>j'. critical_min cfg \<le> filtered_value (read_states cfg ?s' xs ! k))"
      then have st: "critical_start_time ?s' = Some c" by simp
      have tail: "\<forall>k. 0 \<le> k \<and> k \<le> j \<longrightarrow> critical_min cfg \<le> filtered_value (read_states cfg s (x # xs) ! k)"
      proof (intro allI impI)
        fix k assume k: "0 \<le> k \<and> k \<le> j"
        show "critical_min cfg \<le> filtered_value (read_states cfg s (x # xs) ! k)"
        proof (cases k)
          case 0
          with process_sample_start[OF st] show ?thesis by (simp add: Let_def)
        next
          case (Suc k')
          with k a \<open>j = Suc j'\<close> show ?thesis by (simp add: Let_def)
        qed
      qed
      from process_sample_start[OF st] show ?thesis
      proof (elim conjE disjE)
        assume "c = fst x"
        with tail have "\<exists>i\<le>j. c = fst ((x # xs) ! i)
            \<and> (\<forall>k. i \<le> k \<and> k \<le> j \<longrightarrow> critical_min cfg \<le> filtered_value (read_states cfg s (x # xs) ! k))"
          by (intro exI[of _ 0]) simp
        then show ?thesis ..
      next
        assume "critical_start_time s = Some c"
        with tail show ?thesis by simp
      qed
    qed
  qed
qed

lemma read_states_nth_critical:
  assumes "j < length xs" and "status (read_states cfg s xs ! j) = ''CRITICAL''"
  shows "\<exists>c. critical_start_time (read_states cfg s xs ! j) = Some c
           \<and> confirmation_time cfg \<le> fst (xs ! j) - c"
  using assms
proof (induction xs arbitrary: s j)
  case Nil
  then show ?case by simp
next
  case (Cons x xs)
  show ?case
  proof (cases j)
    case 0
    with Cons.prems process_sample_critical[of cfg s x] show ?thesis
      by (auto simp: Let_def)
  next
    case (Suc j')
    with Cons.prems Cons.IH[of j' "process_sample cfg s x"] show ?thesis
      by (simp add: Let_def)
  qed
qed

subsection \<open>The averaging window\<close>

lemma process_sample_readings:
  "readings (process_sample cfg s x) = deque_append (readings_maxlen s) (readings s) (snd x)"
  "readings_maxlen (process_sample cfg s x) = readings_maxlen s"
  "filtered_value (process_sample cfg s x)
     = moving_average (deque_append (readings_maxlen s) (readings s) (snd x)) (snd x)"
  by (auto simp: process_sample_def determine_status_def Let_def split: if_splits option.splits)

lemma deque_append_length:
  "length xs \<le> m \<Longrightarrow> length (deque_append m xs x) \<le> m"
  by (simp add: deque_append_def Let_def)

lemma drop_deque_append:
  assumes "length rs \<le> m"
  shows "drop (length (deque_append m rs v) + length ys - m) (deque_append m rs v @ ys)
           = drop (length rs + Suc (length ys) - m) (rs @ v # ys)"
proof (cases "length rs < m")
  case True
  then show ?thesis by (simp add: deque_append_def Let_def)
next
  case False
  with assms have m: "length rs = m" by simp
  show ?thesis
  proof (cases rs)
    case Nil
    with m show ?thesis by (simp add: deque_append_def Let_def)
  next
    case (Cons r rs')
    with m show ?thesis by (auto simp: deque_append_def Let_def)
  qed
qed

lemma read_states_window:
  assumes "j < length xs" and "length (readings s) \<le> readings_maxlen s"
  shows "readings (read_states cfg s xs ! j)
           = drop (length (readings s) + Suc j - readings_maxlen s)
                  (readings s @ map snd (take (Suc j) xs))"
  using assms
proof (induction xs arbitrary: s j)
  case Nil
  then show ?case by simp
next
  case (Cons x xs)
  let ?s' = "process_sample cfg s x"
  show ?case
  proof (cases j)
    case 0
    then show ?thesis
      by (simp add: Let_def process_sample_readings deque_append_def)
  next
    case (Suc j')
    with Cons.prems have j': "j' < length xs" by simp
    have len: "length (readings ?s') \<le> readings_maxlen ?s'"
      using Cons.prems(2) by (simp add: process_sample_readings deque_append_length)
    have "readings (read_states cfg s (x # xs) ! j) = readings (read_states cfg ?s' xs ! j')"
      using Suc by (simp add: Let_def)
    also have "\<dots> = drop (length (readings ?s') + Suc j' - readings_maxlen ?s')
                  (readings ?s' @ map snd (take (Suc j') xs))"
      by (rule Cons.IH[OF j' len])
    also have "\<dots> = drop (length (readings s) + Suc (Suc j') - readings_maxlen s)
                  (readings s @ snd x # map snd (take (Suc j') xs))"
      using drop_deque_append[OF Cons.prems(2), of "snd x" "map snd (take (Suc j') xs)"] j'
      by (simp add: process_sample_readings)
    finally show ?thesis using Suc by simp
  qed
qed

lemma read_states_filtered:
  assumes "j < length xs"
  shows "filtered_value (read_states cfg s xs ! j)
           = moving_average (readings (read_states cfg s xs ! j)) (snd (xs ! j))"
  using assms
proof (induction xs arbitrary: s j)
  case Nil
  then show ?case by simp
next
  case (Cons x xs)
  show ?case
  proof (cases j)
    case 0
    then show ?thesis by (simp add: Let_def process_sample_readings)
  next
    case (Suc j')
    with Cons.prems Cons.IH[of j' "process_sample cfg s x"] show ?thesis
      by (simp add: Let_def)
  qed
qed

lemma sum_list_below:
  assumes "rs \<noteq> []" and "\<forall>r\<in>set rs. real_of_int r < w"
  shows "real_of_int (sum_list rs) < w * real (length rs)"
  using assms
proof (induction rs)
  case Nil
  then show ?case by simp
next
  case (Cons r rs)
  show ?case
  proof (cases "rs = []")
    case True
    with Cons.prems show ?thesis by simp
  next
    case False
    with Cons have "real_of_int (sum_list rs) < w * real (length rs)" by simp
    moreover from Cons.prems have "real_of_int r < w" by simp
    ultimately show ?thesis by (simp add: algebra_simps)
  qed
qed

lemma moving_average_below:
  assumes "\<forall>r\<in>set rs. real_of_int r < w" and "real_of_int v < w"
  shows "moving_average rs v < w"
proof (cases "rs = []")
  case True
  with assms show ?thesis by (simp add: moving_average_def)
next
  case False
  with sum_list_below[OF False assms(1)] show ?thesis
    by (simp add: moving_average_def pos_divide_less_eq)
qed

lemma filtered_below:
  assumes j: "j < length xs" and empty: "readings s = []"
    and low: "\<forall>k. j - (readings_maxlen s - 1) \<le> k \<and> k \<le> j \<longrightarrow> real_of_int (snd (xs ! k)) < w"
  shows "filtered_value (read_states cfg s xs ! j) < w"
proof -
  let ?m = "readings_maxlen s"
  have win: "readings (read_states cfg s xs ! j) = drop (Suc j - ?m) (map snd (take (Suc j) xs))"
    using read_states_window[OF j, of s cfg] empty by simp
  have "\<forall>r\<in>set (drop (Suc j - ?m) (map snd (take (Suc j) xs))). real_of_int r < w"
  proof
    fix r assume "r \<in> set (drop (Suc j - ?m) (map snd (take (Suc j) xs)))"
    then obtain n where n: "n < length (drop (Suc j - ?m) (map snd (take (Suc j) xs)))"
      "r = drop (Suc j - ?m) (map snd (take (Suc j) xs)) ! n"
      by (auto simp: in_set_conv_nth)
    let ?k = "Suc j - ?m + n"
    from n(1) j have k: "?k \<le> j" by simp
    with n j have "r = snd (xs ! ?k)" by simp
    moreover have "j - (?m - 1) \<le> ?k" by simp
    ultimately show "real_of_int r < w" using low k by blast
  qed
  moreover from low have "real_of_int (snd (xs ! j)) < w" by simp
  ultimately show ?thesis
    using read_states_filtered[OF j, of cfg s] win moving_average_below by simp
qed

subsection \<open>Claims about the gas monitor\<close>

text \<open>
  Claim C1, first part: whenever the monitor publishes \<open>CRITICAL\<close> after sample \<open>j\<close>,
  there is a sample \<open>i \<le> j\<close> such that every filtered value from \<open>i\<close> to \<open>j\<close> is at
  least \<open>critical_min\<close> and the clock readings of \<open>i\<close> and \<open>j\<close> are at least
  \<open>confirmation_time\<close> apart. Second part, as amended: when \<open>confirmation_time\<close> is
  positive the run has at least two readings, so \<open>CRITICAL\<close> never comes from a single
  reading.
\<close>

theorem critical_only_after_sustained_run:
  assumes "gas_monitor cfg xs = Inr ss"
    and "j < length ss"
    and "status (ss ! j) = ''CRITICAL''"
  shows "\<exists>i\<le>j. (\<forall>k. i \<le> k \<and> k \<le> j \<longrightarrow> critical_min cfg \<le> filtered_value (ss ! k))
            \<and> confirmation_time cfg \<le> fst (xs ! j) - fst (xs ! i)
            \<and> (0 < confirmation_time cfg \<longrightarrow> i < j)"
proof -
  from assms(1) obtain s0 where s0: "GasSensor_init cfg = Inr s0"
    and ss: "ss = read_states cfg s0 xs"
    by (auto simp: gas_monitor_def read_loop_def split: sum.splits if_splits)
  from s0 have none: "critical_start_time s0 = None"
    by (auto simp: GasSensor_init_def split: if_splits)
  from assms(2) ss have j: "j < length xs" by (simp add: read_states_length)
  from read_states_nth_critical[OF j] assms(3) ss obtain c
    where c: "critical_start_time (ss ! j) = Some c" "confirmation_time cfg \<le> fst (xs ! j) - c"
    by blast
  from episode_start[OF j, of cfg s0 c] c(1) ss none obtain i where i: "i \<le> j" "c = fst (xs ! i)"
    "\<forall>k. i \<le> k \<and> k \<le> j \<longrightarrow> critical_min cfg \<le> filtered_value (ss ! k)"
    by auto
  have "0 < confirmation_time cfg \<longrightarrow> i < j"
  proof
    assume pos: "0 < confirmation_time cfg"
    show "i < j"
    proof (rule ccontr)
      assume "\<not> i < j"
      with i(1) have "i = j" by simp
      with c(2) i(2) pos show False by simp
    qed
  qed
  with i c(2) show ?thesis by blast
qed

theorem critical_only_after_sustained_run_witness:
  "\<exists>ss. gas_monitor CONFIG_gas_sensor [(0, 500), (1, 500), (2, 500)] = Inr ss
      \<and> map status ss = [''WARNING'', ''WARNING'', ''CRITICAL'']
      \<and> (\<exists>i\<le>2. (\<forall>k. i \<le> k \<and> k \<le> 2
                    \<longrightarrow> critical_min CONFIG_gas_sensor \<le> filtered_value (ss ! k))
            \<and> confirmation_time CONFIG_gas_sensor
                 \<le> fst ([(0, 500), (1, 500), (2 :: real, 500 :: int)] ! 2)
                    - fst ([(0, 500), (1, 500), (2 :: real, 500 :: int)] ! i)
            \<and> (0 < confirmation_time CONFIG_gas_sensor \<longrightarrow> i < 2))"
proof -
  let ?ss = "[\<lparr>current_value = 500, filtered_value = 500, status = ''WARNING'',
              critical_start_time = Some 0, readings = [500], readings_maxlen = 10\<rparr>,
            \<lparr>current_value = 500, filtered_value = 500, status = ''WARNING'',
              critical_start_time = Some 0, readings = [500, 500], readings_maxlen = 10\<rparr>,
            \<lparr>current_value = 500, filtered_value = 500, status = ''CRITICAL'',
              critical_start_time = Some 0, readings = [500, 500, 500], readings_maxlen = 10\<rparr>]"
  have run: "gas_monitor CONFIG_gas_sensor [(0, 500), (1, 500), (2, 500)] = Inr ?ss"
    by code_simp
  have len: "2 < length ?ss" by simp
  have st: "status (?ss ! 2) = ''CRITICAL''" by simp
  have sts: "map status ?ss = [''WARNING'', ''WARNING'', ''CRITICAL'']" by simp
  note concl = critical_only_after_sustained_run[OF run len st]
  show ?thesis
    by (rule exI[of _ ?ss], intro conjI, rule run, rule sts, rule concl)
qed

text \<open>
  Claim C1 as written fails for a configuration with \<open>confirmation_time = 0\<close>: the first
  reading at or above \<open>critical_min\<close> is published as \<open>CRITICAL\<close>.
\<close>

theorem critical_from_single_reading_counterexample:
  "gas_monitor (CONFIG_gas_sensor\<lparr>confirmation_time := 0\<rparr>) [(0, 500)]
     = Inr [\<lparr>current_value = 500, filtered_value = 500, status = ''CRITICAL'',
              critical_start_time = Some 0, readings = [500], readings_maxlen = 10\<rparr>]"
  by (simp add: gas_defs)

text \<open>
  Claim C5 as amended: with \<open>warning_min \<le> critical_min\<close> and a positive
  \<open>confirmation_time\<close>, feed the monitor samples below \<open>warning_min\<close>, then one sample of
  any magnitude at clock reading \<open>t0\<close>, then samples below \<open>warning_min\<close> with clock
  readings in non-decreasing order. If every one of the first \<open>window_size - 1\<close> samples
  after the spike (those averaged together with it) is read less than \<open>confirmation_time\<close>
  after \<open>t0\<close>, no published status is \<open>CRITICAL\<close>.
\<close>

theorem single_spike_never_critical:
  assumes run: "gas_monitor cfg (pre @ (t0, spike) # post) = Inr ss"
    and thr: "warning_min cfg \<le> critical_min cfg"
    and pos: "0 < confirmation_time cfg"
    and pre: "\<forall>x\<in>set pre. real_of_int (snd x) < warning_min cfg"
    and post: "\<forall>x\<in>set post. real_of_int (snd x) < warning_min cfg"
    and sorted: "sorted (t0 # map fst post)"
    and win: "\<forall>k<length post. k < nat (window_size cfg) - 1
                \<longrightarrow> fst (post ! k) - t0 < confirmation_time cfg"
  shows "\<forall>s\<in>set ss. status s \<noteq> ''CRITICAL''"
proof
  fix s assume s: "s \<in> set ss"
  let ?xs = "pre @ (t0, spike) # post"
  let ?p = "length pre"
  let ?m = "nat (window_size cfg)"
  from run obtain s0 where s0: "GasSensor_init cfg = Inr s0"
    and ss: "ss = read_states cfg s0 ?xs"
    by (auto simp: gas_monitor_def read_loop_def split: sum.splits if_splits)
  from s0 have init: "critical_start_time s0 = None" "readings s0 = []" "readings_maxlen s0 = ?m"
    by (auto simp: GasSensor_init_def split: if_splits)
  show "status s \<noteq> ''CRITICAL''"
  proof
    assume crit: "status s = ''CRITICAL''"
    from s obtain j where j: "j < length ?xs" and sj: "ss ! j = s"
      unfolding ss by (auto simp: in_set_conv_nth read_states_length)
    from read_states_nth_critical[OF j, of cfg s0] crit sj ss obtain c
      where c: "critical_start_time (ss ! j) = Some c" "confirmation_time cfg \<le> fst (?xs ! j) - c"
      by auto
    from episode_start[OF j, of cfg s0 c] c(1) ss init(1) obtain i where i: "i \<le> j" "c = fst (?xs ! i)"
      and runk: "\<forall>k. i \<le> k \<and> k \<le> j \<longrightarrow> critical_min cfg \<le> filtered_value (ss ! k)"
      by auto
    have before: "filtered_value (ss ! n) < warning_min cfg" if "n < ?p" for n
    proof -
      have "\<forall>k. n - (readings_maxlen s0 - 1) \<le> k \<and> k \<le> n
              \<longrightarrow> real_of_int (snd (?xs ! k)) < warning_min cfg"
        using that pre by (auto simp: nth_append)
      moreover from that have "n < length ?xs" by simp
      ultimately show ?thesis unfolding ss using init(2) by (intro filtered_below) 
    qed
    have after: "filtered_value (ss ! n) < warning_min cfg"
      if "?p + (?m - 1) < n" "n < length ?xs" for n
    proof -
      have "\<forall>k. n - (readings_maxlen s0 - 1) \<le> k \<and> k \<le> n
              \<longrightarrow> real_of_int (snd (?xs ! k)) < warning_min cfg"
      proof (intro allI impI)
        fix k assume k: "n - (readings_maxlen s0 - 1) \<le> k \<and> k \<le> n"
        with that init(3) have "?p < k" "k < length ?xs" by auto
        then obtain k' where k': "k = ?p + Suc k'" "k' < length post"
          by (metis Suc_less_eq add_Suc_right length_Cons length_append less_imp_Suc_add nat_add_left_cancel_less)
        then have "?xs ! k = post ! k'" by (simp add: nth_append)
        with k'(2) post show "real_of_int (snd (?xs ! k)) < warning_min cfg" by simp
      qed
      with that(2) show ?thesis unfolding ss using init(2) by (intro filtered_below)
    qed
    have "\<not> i < ?p"
    proof
      assume "i < ?p"
      from before[OF this] runk i(1) thr show False by force
    qed
    then have ip: "?p \<le> i" by simp
    have "\<not> ?p + (?m - 1) < j"
    proof
      assume "?p + (?m - 1) < j"
      from after[OF this j] runk i(1) thr show False by force
    qed
    then have jm: "j \<le> ?p + (?m - 1)" by simp
    have tail: "?xs ! n = ((t0, spike) # post) ! (n - ?p)" if "?p \<le> n" for n
      using that by (simp add: nth_append)
    define ys where "ys = (t0, spike) # post"
    have srt: "sorted (map fst ys)" using sorted by (simp add: ys_def)
    from ip i(1) j have idx: "i - ?p < length ys" by (simp add: ys_def)
    have "map fst ys ! 0 \<le> map fst ys ! (i - ?p)"
      using srt idx by (intro sorted_nth_mono) simp_all
    moreover have "map fst ys ! 0 = t0" by (simp add: ys_def)
    moreover have "map fst ys ! (i - ?p) = fst (ys ! (i - ?p))" using idx by (rule nth_map)
    ultimately have "t0 \<le> fst (ys ! (i - ?p))" by simp
    with ip have ti: "t0 \<le> fst (?xs ! i)"
      by (simp add: tail ys_def)
    have tj: "fst (?xs ! j) - t0 < confirmation_time cfg"
    proof (cases "j = ?p")
      case True
      with pos show ?thesis by simp
    next
      case False
      with ip i(1) obtain k where k: "j = ?p + Suc k" 
        by (metis add_Suc_right le_antisym le_trans less_imp_Suc_add not_less)
      with j jm have "k < length post" "k < ?m - 1" by simp_all
      with win have "fst (post ! k) - t0 < confirmation_time cfg" by simp
      with k show ?thesis by (simp add: nth_append)
    qed
    from c(2) i(2) ti tj show False by simp
  qed
qed

theorem single_spike_never_critical_witness:
  "\<exists>ss. gas_monitor CONFIG_gas_sensor ([(0, 50)] @ (1, 1000) # [(11 / 10, 50)]) = Inr ss
      \<and> length ss = 3 \<and> (\<forall>s\<in>set ss. status s \<noteq> ''CRITICAL'')"
proof -
  let ?ss = "read_states CONFIG_gas_sensor
      \<lparr>current_value = 0, filtered_value = 0, status = ''SAFE'', critical_start_time = None,
        readings = [], readings_maxlen = 10\<rparr> ([(0, 50)] @ (1, 1000) # [(11 / 10, 50)])"
  have run: "gas_monitor CONFIG_gas_sensor ([(0, 50)] @ (1, 1000) # [(11 / 10, 50)]) = Inr ?ss"
    by (simp add: gas_monitor_def GasSensor_init_def read_loop_def window_size_def py_int_def
        CONFIG_gas_sensor_def)
  have thr: "warning_min CONFIG_gas_sensor \<le> critical_min CONFIG_gas_sensor"
    and pos: "0 < confirmation_time CONFIG_gas_sensor"
    by (simp_all add: CONFIG_gas_sensor_def)
  have pre: "\<forall>x\<in>set [(0 :: real, 50 :: int)]. real_of_int (snd x) < warning_min CONFIG_gas_sensor"
    and post: "\<forall>x\<in>set [(11 / 10 :: real, 50 :: int)]. real_of_int (snd x) < warning_min CONFIG_gas_sensor"
    by (simp_all add: CONFIG_gas_sensor_def)
  have srt: "sorted (1 # map fst [(11 / 10 :: real, 50 :: int)])" by simp
  have win: "\<forall>k<length [(11 / 10 :: real, 50 :: int)]. k < nat (window_size CONFIG_gas_sensor) - 1
                \<longrightarrow> fst ([(11 / 10 :: real, 50 :: int)] ! k) - 1 < confirmation_time CONFIG_gas_sensor"
    by (simp add: CONFIG_gas_sensor_def)
  from single_spike_never_critical[OF run thr pos pre post srt win]
  have "\<forall>s\<in>set ?ss. status s \<noteq> ''CRITICAL''" .
  moreover have "length ?ss = 3" by (simp only: read_states_length) simp
  ultimately show ?thesis using run by blast
qed

text \<open>
  Claim C5 as written fails: with the ten-sample window of the reference configuration and
  \<open>confirmation_time = 0.125\<close>, the single sample 1023 (the largest count \<open>_read_adc\<close>
  returns) followed 0.125 s later by the sample 0 leaves the moving average at 511.5, at
  or above \<open>critical_min = 400\<close>, and the second status is \<open>CRITICAL\<close>.
\<close>

theorem single_spike_critical_counterexample:
  "map_sum id (map status)
     (gas_monitor (CONFIG_gas_sensor\<lparr>confirmation_time := 1 / 8\<rparr>) [(0, 1023), (1 / 8, 0)])
     = Inr [''WARNING'', ''CRITICAL'']
   \<and> map_sum id (map filtered_value)
     (gas_monitor (CONFIG_gas_sensor\<lparr>confirmation_time := 1 / 8\<rparr>) [(0, 1023), (1 / 8, 0)])
     = Inr [1023, 1023 / 2]"
  by code_simp

text \<open>
  Claim C9: a sensor that has been constructed and has processed no sample reports
  \<open>(0, 0, 'SAFE')\<close>.
\<close>

theorem get_reading_before_first_sample:
  "GasSensor_init cfg = Inr s \<Longrightarrow> get_reading s = (0, 0, ''SAFE'')"
  by (auto simp: GasSensor_init_def get_reading_def split: if_splits)

theorem get_reading_before_first_sample_witness:
  "GasSensor_init CONFIG_gas_sensor
     = Inr \<lparr>current_value = 0, filtered_value = 0, status = ''SAFE'', critical_start_time = None,
             readings = [], readings_maxlen = 10\<rparr>
   \<and> get_reading \<lparr>current_value = 0, filtered_value = 0, status = ''SAFE'',
             critical_start_time = None, readings = [], readings_maxlen = 10\<rparr>
       = (0, 0, ''SAFE'')"
proof -
  have init: "GasSensor_init CONFIG_gas_sensor
     = Inr \<lparr>current_value = 0, filtered_value = 0, status = ''SAFE'', critical_start_time = None,
             readings = [], readings_maxlen = 10\<rparr>"
    by (simp add: GasSensor_init_def window_size_def py_int_def CONFIG_gas_sensor_def)
  from get_reading_before_first_sample[OF init] init show ?thesis by simp
qed

section \<open>Properties of the AI inference engine\<close>

lemma norm_ranges_rpm: "norm_ranges CONFIG_ai ''rpm'' = Some [0, 6000]"
  by (simp add: CONFIG_ai_def)

lemma norm_ranges_fuel_level: "norm_ranges CONFIG_ai ''fuel_level'' = None"
  by (simp add: CONFIG_ai_def)

lemma preprocess_rejects_non_number:
  "preprocess CONFIG_ai [''timestamp'' \<mapsto> PyNumber 100, ''rpm'' \<mapsto> PyNumber 3000, ''speed'' \<mapsto> PyOther]
     = Inl TypeError"
  by (simp add: preprocess_def feature_order_def normalize_value_def clamp_def py_float_def
      CONFIG_ai_def)

text \<open>
  Claim C7: for a channel configured with the range \<open>[min_val, max_val]\<close> and
  \<open>min_val < max_val\<close>, \<open>normalize_value\<close> clamps the value into the range and maps the
  clamped value linearly: the result is \<open>(clamp v - min_val) / (max_val - min_val)\<close>, it lies
  in \<open>[0, 1]\<close>, it is exactly 0 for \<open>v \<le> min_val\<close> and exactly 1 for \<open>v \<ge> max_val\<close>;
  clamping leaves a value inside the range as it is and clamping twice is clamping once.
  For \<open>min_val = max_val\<close> the result is exactly 0.
\<close>

theorem normalize_value_clamps_then_maps:
  assumes "norm_ranges cfg param_name = Some [min_val, max_val]"
  shows "(min_val < max_val \<longrightarrow>
            normalize_value cfg v param_name
              = Inr ((clamp min_val max_val v - min_val) / (max_val - min_val))
          \<and> min_val \<le> clamp min_val max_val v \<and> clamp min_val max_val v \<le> max_val
          \<and> (min_val \<le> v \<and> v \<le> max_val \<longrightarrow> clamp min_val max_val v = v)
          \<and> clamp min_val max_val (clamp min_val max_val v) = clamp min_val max_val v
          \<and> (\<exists>r. normalize_value cfg v param_name = Inr r \<and> 0 \<le> r \<and> r \<le> 1)
          \<and> (v \<le> min_val \<longrightarrow> normalize_value cfg v param_name = Inr 0)
          \<and> (max_val \<le> v \<longrightarrow> normalize_value cfg v param_name = Inr 1))
       \<and> (min_val = max_val \<longrightarrow> normalize_value cfg v param_name = Inr 0)"
proof (intro conjI impI)
  assume lt: "min_val < max_val"
  show eq: "normalize_value cfg v param_name
              = Inr ((clamp min_val max_val v - min_val) / (max_val - min_val))"
    using assms lt by (simp add: normalize_value_def)
  show lo: "min_val \<le> clamp min_val max_val v" and hi: "clamp min_val max_val v \<le> max_val"
    using lt by (simp_all add: clamp_def)
  show "clamp min_val max_val (clamp min_val max_val v) = clamp min_val max_val v"
    using lt by (simp add: clamp_def)
  have "0 \<le> (clamp min_val max_val v - min_val) / (max_val - min_val)"
    using lt lo by simp
  moreover have "(clamp min_val max_val v - min_val) / (max_val - min_val) \<le> 1"
    using lt hi by simp
  ultimately show "\<exists>r. normalize_value cfg v param_name = Inr r \<and> 0 \<le> r \<and> r \<le> 1"
    using eq by simp
next
  assume "min_val < max_val" "min_val \<le> v \<and> v \<le> max_val"
  then show "clamp min_val max_val v = v" by (simp add: clamp_def)
next
  assume "min_val < max_val" "v \<le> min_val"
  then show "normalize_value cfg v param_name = Inr 0"
    using assms by (simp add: normalize_value_def clamp_def)
next
  assume "min_val < max_val" "max_val \<le> v"
  then show "normalize_value cfg v param_name = Inr 1"
    using assms by (simp add: normalize_value_def clamp_def)
next
  assume "min_val = max_val"
  then show "normalize_value cfg v param_name = Inr 0"
    using assms by (simp add: normalize_value_def)
qed

theorem normalize_value_clamps_then_maps_witness:
  "norm_ranges CONFIG_ai ''rpm'' = Some [0, 6000]
   \<and> normalize_value CONFIG_ai 3000 ''rpm'' = Inr (1 / 2)
   \<and> normalize_value CONFIG_ai (- 5) ''rpm'' = Inr 0
   \<and> normalize_value CONFIG_ai 7000 ''rpm'' = Inr 1
   \<and> normalize_value (CONFIG_ai\<lparr>norm_ranges := [''rpm'' \<mapsto> [5, 5]]\<rparr>) 9 ''rpm'' = Inr 0"
proof -
  have deg: "norm_ranges (CONFIG_ai\<lparr>norm_ranges := [''rpm'' \<mapsto> [5, 5]]\<rparr>) ''rpm'' = Some [5, 5]"
    by simp
  show ?thesis
    using normalize_value_clamps_then_maps[OF norm_ranges_rpm, of 3000]
      normalize_value_clamps_then_maps[OF norm_ranges_rpm, of "- 5"]
      normalize_value_clamps_then_maps[OF norm_ranges_rpm, of 7000]
      normalize_value_clamps_then_maps[OF deg, of 9]
      norm_ranges_rpm
    by (simp add: clamp_def)
qed

text \<open>
  Claim C10: for a channel name that \<open>norm_ranges\<close> does not hold, \<open>normalize_value\<close>
  raises nothing: it returns the value normalised against \<open>[0, 100]\<close>, the same result as
  with a configuration that gives the channel that range.
\<close>

theorem normalize_value_default_range:
  assumes "norm_ranges cfg param_name = None"
  shows "normalize_value cfg v param_name = Inr (clamp 0 100 v / 100)
       \<and> normalize_value cfg v param_name
           = normalize_value (cfg\<lparr>norm_ranges := (norm_ranges cfg)(param_name \<mapsto> [0, 100])\<rparr>) v param_name"
  using assms by (simp add: normalize_value_def)

theorem normalize_value_default_range_witness:
  "norm_ranges CONFIG_ai ''fuel_level'' = None
   \<and> normalize_value CONFIG_ai 42 ''fuel_level'' = Inr (21 / 50)
   \<and> normalize_value CONFIG_ai 250 ''fuel_level'' = Inr 1"
  using normalize_value_default_range[OF norm_ranges_fuel_level, of 42]
    normalize_value_default_range[OF norm_ranges_fuel_level, of 250]
    norm_ranges_fuel_level
  by (simp add: clamp_def)

text \<open>
  Claim C6: whatever the engine's stored state, the snapshot and the generator,
  \<open>run_inference\<close> returns a score in \<open>[0, 1]\<close>; and two runs on the same snapshot from the
  same generator state return the same pair and leave the generator in the same state,
  whatever the two engines had stored before.
\<close>

theorem run_inference_score_range_and_determinism:
  "0 \<le> fst (snd (snd (run_inference cfg e1 g obd_data)))
   \<and> fst (snd (snd (run_inference cfg e1 g obd_data))) \<le> 1
   \<and> snd (snd (run_inference cfg e1 g obd_data)) = snd (snd (run_inference cfg e2 g obd_data))
   \<and> fst (snd (run_inference cfg e1 g obd_data)) = fst (snd (run_inference cfg e2 g obd_data))"
proof (cases "preprocess cfg obd_data")
  case (Inl err)
  then show ?thesis by (simp add: run_inference_def)
next
  case (Inr features)
  obtain noise g' where u: "random_uniform (- (5 / 100)) (5 / 100) g = (noise, g')"
    by (cases "random_uniform (- (5 / 100)) (5 / 100) g")
  show ?thesis
    unfolding run_inference_def Inr sum.case Let_def u prod.case by simp
qed

theorem run_inference_score_range_and_determinism_witness:
  "snd (snd (run_inference CONFIG_ai AIInferenceEngine_init fixed_rng
        [''timestamp'' \<mapsto> PyNumber 100, ''rpm'' \<mapsto> PyNumber 3000]))
     = snd (snd (run_inference CONFIG_ai
        \<lparr>latest_score = 2 / 5, latest_status = ''WARNING'', inference_count = 7\<rparr>
        fixed_rng
        [''timestamp'' \<mapsto> PyNumber 100, ''rpm'' \<mapsto> PyNumber 3000]))"
  by (rule run_inference_score_range_and_determinism[THEN conjunct2, THEN conjunct2, THEN conjunct1])

text \<open>
  Claim C8: a new engine reports \<open>(0.0, 'UNKNOWN')\<close>; when inference raises (the exception
  comes from \<open>preprocess\<close>), \<open>run_inference\<close> returns \<open>(0.0, 'ERROR')\<close> and the engine,
  hence \<open>get_latest_result\<close>, is as before. Neither \<open>'UNKNOWN'\<close> nor \<open>'ERROR'\<close> is one of
  \<open>NORMAL\<close>, \<open>WARNING\<close>, \<open>CRITICAL\<close>.
\<close>

theorem ai_status_outside_enum:
  "get_latest_result AIInferenceEngine_init = (0, ''UNKNOWN'')
   \<and> ''UNKNOWN'' \<notin> {''NORMAL'', ''WARNING'', ''CRITICAL''}
   \<and> ''ERROR'' \<notin> {''NORMAL'', ''WARNING'', ''CRITICAL''}
   \<and> (preprocess cfg obd_data = Inl err \<longrightarrow>
         run_inference cfg e g obd_data = (e, g, (0, ''ERROR''))
         \<and> get_latest_result (fst (run_inference cfg e g obd_data)) = get_latest_result e)"
  by (simp add: get_latest_result_def AIInferenceEngine_init_def run_inference_def)

theorem ai_status_outside_enum_witness:
  "preprocess CONFIG_ai [''timestamp'' \<mapsto> PyNumber 100, ''rpm'' \<mapsto> PyNumber 3000, ''speed'' \<mapsto> PyOther]
     = Inl TypeError
   \<and> run_inference CONFIG_ai
         \<lparr>latest_score = 2 / 5, latest_status = ''WARNING'', inference_count = 7\<rparr>
         fixed_rng
         [''timestamp'' \<mapsto> PyNumber 100, ''rpm'' \<mapsto> PyNumber 3000, ''speed'' \<mapsto> PyOther]
       = (\<lparr>latest_score = 2 / 5, latest_status = ''WARNING'', inference_count = 7\<rparr>,
          fixed_rng, (0, ''ERROR''))
   \<and> get_latest_result AIInferenceEngine_init = (0, ''UNKNOWN'')"
proof (intro conjI)
  show "preprocess CONFIG_ai [''timestamp'' \<mapsto> PyNumber 100, ''rpm'' \<mapsto> PyNumber 3000, ''speed'' \<mapsto> PyOther]
     = Inl TypeError"
    by (rule preprocess_rejects_non_number)
  show "run_inference CONFIG_ai
         \<lparr>latest_score = 2 / 5, latest_status = ''WARNING'', inference_count = 7\<rparr>
         fixed_rng
         [''timestamp'' \<mapsto> PyNumber 100, ''rpm'' \<mapsto> PyNumber 3000, ''speed'' \<mapsto> PyOther]
       = (\<lparr>latest_score = 2 / 5, latest_status = ''WARNING'', inference_count = 7\<rparr>,
          fixed_rng, (0, ''ERROR''))"
    by (rule ai_status_outside_enum[THEN conjunct2, THEN conjunct2, THEN conjunct2, THEN mp,
          THEN conjunct1, OF preprocess_rejects_non_number])
  show "get_latest_result AIInferenceEngine_init = (0, ''UNKNOWN'')"
    by (rule ai_status_outside_enum[THEN conjunct1])
qed

section \<open>Properties of the valve controller and the control loop\<close>

subsection \<open>The valve controller over a GPIO module whose calls may raise\<close>

lemma gpio_invoke_frame:
  "valve_open (fst (gpio_invoke v c)) = valve_open v"
  "gpio_available (fst (gpio_invoke v c)) = gpio_available v"
  "gpio_raises (fst (gpio_invoke v c)) = gpio_raises v"
  "snd (gpio_invoke v c) = None \<longleftrightarrow> \<not> gpio_raises v (gpio_count v)"
  "gpio_calls (fst (gpio_invoke v c))
     = gpio_calls v @ (if gpio_raises v (gpio_count v) then [] else [c])"
  "gpio_count (fst (gpio_invoke v c)) = Suc (gpio_count v)"
  by (simp_all add: gpio_invoke_def Let_def)

lemma set_gpio_state_frame:
  "valve_open (fst (set_gpio_state cfg v b)) = valve_open v"
  "gpio_available (fst (set_gpio_state cfg v b)) = gpio_available v"
  "gpio_raises (fst (set_gpio_state cfg v b)) = gpio_raises v"
  by (simp_all add: set_gpio_state_def gpio_invoke_frame Let_def)

lemma set_gpio_state_closed_calls:
  "\<exists>n. gpio_calls (fst (set_gpio_state cfg v False))
         = gpio_calls v @ replicate n (Output (gpio_pin cfg) (closed_level cfg))"
proof (cases "gpio_available v \<and> \<not> gpio_raises v (gpio_count v)")
  case True
  then have "gpio_calls (fst (set_gpio_state cfg v False))
         = gpio_calls v @ replicate 1 (Output (gpio_pin cfg) (closed_level cfg))"
    by (simp add: set_gpio_state_def gpio_invoke_frame closed_level_def Let_def)
  then show ?thesis by blast
next
  case False
  then have "gpio_calls (fst (set_gpio_state cfg v False))
         = gpio_calls v @ replicate 0 (Output (gpio_pin cfg) (closed_level cfg))"
    by (auto simp: set_gpio_state_def gpio_invoke_frame Let_def)
  then show ?thesis by blast
qed


lemma close_valve_cases:
  obtains (was_closed) "\<not> valve_open v" "close_valve cfg v = (v, None)"
  | (closed) "valve_open v" "snd (set_gpio_state cfg v False) = None"
      "close_valve cfg v = ((fst (set_gpio_state cfg v False))\<lparr>valve_open := False\<rparr>, None)"
  | (raised) e where "valve_open v" "snd (set_gpio_state cfg v False) = Some e"
      "close_valve cfg v = (fst (set_gpio_state cfg v False), Some e)"
proof (cases "valve_open v")
  case False
  then show ?thesis by (intro was_closed) (simp_all add: close_valve_def)
next
  case True
  show ?thesis
  proof (cases "snd (set_gpio_state cfg v False)")
    case None
    with True show ?thesis
      by (intro closed) (auto simp: close_valve_def split: prod.splits)
  next
    case (Some e)
    with True show ?thesis
      by (intro raised[of e]) (auto simp: close_valve_def split: prod.splits)
  qed
qed

lemma close_valve_frame:
  "gpio_available (fst (close_valve cfg v)) = gpio_available v"
  "gpio_raises (fst (close_valve cfg v)) = gpio_raises v"
  "snd (close_valve cfg v) = None \<Longrightarrow> \<not> valve_open (fst (close_valve cfg v))"
  "\<not> valve_open v \<Longrightarrow> \<not> valve_open (fst (close_valve cfg v))"
  "\<exists>n. gpio_calls (fst (close_valve cfg v))
         = gpio_calls v @ replicate n (Output (gpio_pin cfg) (closed_level cfg))"
proof -
  show "gpio_available (fst (close_valve cfg v)) = gpio_available v"
    by (cases rule: close_valve_cases[of v cfg]) (simp_all add: set_gpio_state_frame)
  show "gpio_raises (fst (close_valve cfg v)) = gpio_raises v"
    by (cases rule: close_valve_cases[of v cfg]) (simp_all add: set_gpio_state_frame)
  show "snd (close_valve cfg v) = None \<Longrightarrow> \<not> valve_open (fst (close_valve cfg v))"
    by (cases rule: close_valve_cases[of v cfg]) simp_all
  show "\<not> valve_open v \<Longrightarrow> \<not> valve_open (fst (close_valve cfg v))"
    by (cases rule: close_valve_cases[of v cfg]) simp_all
  show "\<exists>n. gpio_calls (fst (close_valve cfg v))
         = gpio_calls v @ replicate n (Output (gpio_pin cfg) (closed_level cfg))"
  proof (cases rule: close_valve_cases[of v cfg])
    case was_closed
    then have "gpio_calls (fst (close_valve cfg v))
         = gpio_calls v @ replicate 0 (Output (gpio_pin cfg) (closed_level cfg))" by simp
    then show ?thesis by blast
  next
    case closed
    with set_gpio_state_closed_calls[of cfg v] show ?thesis by simp
  next
    case (raised e)
    with set_gpio_state_closed_calls[of cfg v] show ?thesis by simp
  qed
qed


lemma emergency_shutoff_unfold:
  "emergency_shutoff cfg v =
     (if snd (close_valve cfg v) = None then set_gpio_state cfg (fst (close_valve cfg v)) False
      else close_valve cfg v)"
  by (cases "close_valve cfg v") (auto simp: emergency_shutoff_def split: option.splits)

lemma emergency_shutoff_frame:
  "gpio_available (fst (emergency_shutoff cfg v)) = gpio_available v"
  "gpio_raises (fst (emergency_shutoff cfg v)) = gpio_raises v"
  by (simp_all add: emergency_shutoff_unfold set_gpio_state_frame close_valve_frame)

lemma emergency_shutoff_closes:
  "snd (emergency_shutoff cfg v) = None \<Longrightarrow> \<not> valve_open (fst (emergency_shutoff cfg v))"
  by (auto simp: emergency_shutoff_unfold set_gpio_state_frame close_valve_frame split: if_splits)








subsection \<open>One iteration\<close>

lemma shutoff_calls_append: "shutoff_calls (xs @ ys) = shutoff_calls xs + shutoff_calls ys"
  by (induction xs rule: shutoff_calls.induct) simp_all


lemma check_gas_safety_cases:
  obtains (skip) "check_gas_safety cfg sys t = (sys, [])"
  | (returned) v1 where "\<not> emergency_shutdown sys"
      "emergency_shutoff (cfg_valve cfg) (valve sys) = (v1, None)"
      "check_gas_safety cfg sys t
         = (sys\<lparr>valve := v1, emergency_shutdown := True\<rparr>, [EmergencyShutoff None])"
  | (raised) v1 e where "\<not> emergency_shutdown sys"
      "emergency_shutoff (cfg_valve cfg) (valve sys) = (v1, Some e)"
      "check_gas_safety cfg sys t = (sys\<lparr>valve := v1\<rparr>, [EmergencyShutoff (Some e)])"
proof -
  obtain raw filtered st where g: "gas_reading t = (raw, filtered, st)" by (metis prod_cases3)
  obtain v1 r where e: "emergency_shutoff (cfg_valve cfg) (valve sys) = (v1, r)"
    by (cases "emergency_shutoff (cfg_valve cfg) (valve sys)")
  show thesis
  proof (cases "st = ''CRITICAL'' \<and> auto_shutoff (cfg_valve cfg) \<and> \<not> emergency_shutdown sys")
    case False
    then have "check_gas_safety cfg sys t = (sys, [])"
      using g by (auto simp: check_gas_safety_def)
    then show thesis by (rule skip)
  next
    case True
    show thesis
    proof (cases r)
      case None
      with True g e show thesis
        by (intro returned[of v1]) (simp_all add: check_gas_safety_def)
    next
      case (Some err)
      with True g e show thesis
        by (intro raised[of v1 err]) (simp_all add: check_gas_safety_def)
    qed
  qed
qed

lemma run_ai_inference_frame:
  "valve (fst (run_ai_inference cfg sys t)) = valve sys"
  "emergency_shutdown (fst (run_ai_inference cfg sys t)) = emergency_shutdown sys"
  "running (fst (run_ai_inference cfg sys t)) = running sys"
  "shutoff_calls (snd (run_ai_inference cfg sys t)) = 0"
  by (simp_all add: run_ai_inference_def Let_def split: prod.splits)

lemma display_status_frame:
  "fst (display_status cfg sys t) = sys"
  "shutoff_calls (snd (display_status cfg sys t)) = 0"
  by (simp_all add: display_status_def split: prod.splits)

lemma main_loop_body_split:
  "\<exists>sys2 rest.
      main_loop_body cfg sys lv t
        = (sys2, fst (snd (main_loop_body cfg sys lv t)), snd (gas_step cfg sys lv t) @ rest)
      \<and> valve sys2 = valve (fst (gas_step cfg sys lv t))
      \<and> emergency_shutdown sys2 = emergency_shutdown (fst (gas_step cfg sys lv t))
      \<and> running sys2 = running (fst (gas_step cfg sys lv t))
      \<and> shutoff_calls rest = 0"
proof -
  obtain sys1 ev1 where g: "gas_step cfg sys lv t = (sys1, ev1)" by (cases "gas_step cfg sys lv t")
  define lv1 where "lv1 = (if 1 / 10 \<le> tick_time t - last_gas_check lv then lv\<lparr>last_gas_check := tick_time t\<rparr> else lv)"
  have s1: "(if 1 / 10 \<le> tick_time t - last_gas_check lv
             then (let (s', ev) = check_gas_safety cfg sys t
                   in (s', lv\<lparr>last_gas_check := tick_time t\<rparr>, ev))
             else (sys, lv, [])) = (sys1, lv1, ev1)"
    using g by (auto simp: gas_step_def lv1_def split: prod.splits)
  obtain sys2 lv2 ev2 where s2: "(if 1 / 2 \<le> tick_time t - last_ai_check lv1
             then (let (s', ev) = run_ai_inference cfg sys1 t
                   in (s', lv1\<lparr>last_ai_check := tick_time t\<rparr>, ev))
             else (sys1, lv1, [])) = (sys2, lv2, ev2)"
    by (metis prod_cases3)
  have f2: "valve sys2 = valve sys1" "emergency_shutdown sys2 = emergency_shutdown sys1"
    "running sys2 = running sys1" "shutoff_calls ev2 = 0"
    using s2 run_ai_inference_frame[of cfg sys1 t]
    by (auto split: if_splits prod.splits)
  obtain sys3 lv3 ev3 where s3: "(if 2 \<le> tick_time t - last_display lv2
             then (let (s', ev) = display_status cfg sys2 t
                   in (s', lv2\<lparr>last_display := tick_time t\<rparr>, ev))
             else (sys2, lv2, [])) = (sys3, lv3, ev3)"
    by (metis prod_cases3)
  have f3: "sys3 = sys2" "shutoff_calls ev3 = 0"
    using s3 display_status_frame[of cfg sys2 t]
    by (auto split: if_splits prod.splits)
  have "main_loop_body cfg sys lv t = (sys3, lv3, ev1 @ ev2 @ ev3)"
    unfolding main_loop_body_def Let_def s1[unfolded Let_def] prod.case s2[unfolded Let_def]
      s3[unfolded Let_def] by (rule refl)
  with f2 f3 g show ?thesis
    by (intro exI[of _ sys3] exI[of _ "ev2 @ ev3"]) (simp add: shutoff_calls_append)
qed

text \<open>What one iteration does to the flag, the valve and the shutoff calls.\<close>

lemma main_loop_body_effect:
  obtains (quiet) sys' lv' ev where "main_loop_body cfg sys lv t = (sys', lv', ev)"
      "valve sys' = valve sys" "emergency_shutdown sys' = emergency_shutdown sys"
      "running sys' = running sys" "shutoff_calls ev = 0"
  | (shutoff_returned) sys' lv' rest where
      "main_loop_body cfg sys lv t = (sys', lv', EmergencyShutoff None # rest)"
      "emergency_shutoff (cfg_valve cfg) (valve sys) = (valve sys', None)"
      "\<not> emergency_shutdown sys" "emergency_shutdown sys'"
      "running sys' = running sys" "shutoff_calls rest = 0"
  | (shutoff_raised) sys' lv' e rest where
      "main_loop_body cfg sys lv t = (sys', lv', EmergencyShutoff (Some e) # rest)"
      "emergency_shutoff (cfg_valve cfg) (valve sys) = (valve sys', Some e)"
      "\<not> emergency_shutdown sys" "\<not> emergency_shutdown sys'"
      "running sys' = running sys" "shutoff_calls rest = 0"
proof -
  from main_loop_body_split[of cfg sys lv t] obtain sys2 rest where
    b: "main_loop_body cfg sys lv t
        = (sys2, fst (snd (main_loop_body cfg sys lv t)), snd (gas_step cfg sys lv t) @ rest)"
    and f: "valve sys2 = valve (fst (gas_step cfg sys lv t))"
      "emergency_shutdown sys2 = emergency_shutdown (fst (gas_step cfg sys lv t))"
      "running sys2 = running (fst (gas_step cfg sys lv t))"
    and r: "shutoff_calls rest = 0"
    by blast
  show thesis
  proof (cases "1 / 10 \<le> tick_time t - last_gas_check lv")
    case False
    then have g: "gas_step cfg sys lv t = (sys, [])" by (simp add: gas_step_def)
    show thesis by (rule quiet[OF b]) (use f g r in simp_all)
  next
    case True
    then have gs: "gas_step cfg sys lv t = check_gas_safety cfg sys t" by (simp add: gas_step_def)
    show thesis
    proof (cases rule: check_gas_safety_cases[of cfg sys t])
      case skip
      with gs have g: "gas_step cfg sys lv t = (sys, [])" by simp
      show thesis by (rule quiet[OF b]) (use f g r in simp_all)
    next
      case (returned v1)
      with gs have g: "gas_step cfg sys lv t
          = (sys\<lparr>valve := v1, emergency_shutdown := True\<rparr>, [EmergencyShutoff None])" by simp
      from b g have b': "main_loop_body cfg sys lv t
          = (sys2, fst (snd (main_loop_body cfg sys lv t)), EmergencyShutoff None # rest)" by simp
      show thesis by (rule shutoff_returned[OF b']) (use f g r returned in simp_all)
    next
      case (raised v1 e)
      with gs have g: "gas_step cfg sys lv t
          = (sys\<lparr>valve := v1\<rparr>, [EmergencyShutoff (Some e)])" by simp
      from b g have b': "main_loop_body cfg sys lv t
          = (sys2, fst (snd (main_loop_body cfg sys lv t)), EmergencyShutoff (Some e) # rest)" by simp
      show thesis by (rule shutoff_raised[OF b']) (use f g r raised in simp_all)
    qed
  qed
qed

lemma main_loop_from_stopped:
  "\<not> running sys \<or> emergency_shutdown sys \<Longrightarrow> main_loop_from cfg sys lv ts = (sys, [])"
  by (cases ts) auto

lemma main_loop_from_step:
  assumes "running sys" "\<not> emergency_shutdown sys" "main_loop_body cfg sys lv t = (sys', lv', ev)"
  shows "main_loop_from cfg sys lv (t # ts)
           = (fst (main_loop_from cfg sys' lv' ts), ev @ snd (main_loop_from cfg sys' lv' ts))"
  using assms by (simp add: split_beta)


subsection \<open>The loop\<close>






text \<open>
  The iteration whose gas check sets the flag: its events are the shutoff, then the
  inference if it is due and telemetry has arrived, then the status report if it is due;
  no later iteration adds to them.
\<close>

lemma flag_setting_iteration:
  assumes run: "running sys" "\<not> emergency_shutdown sys"
    and due: "1 / 10 \<le> tick_time t - last_gas_check lv"
    and crit: "snd (snd (gas_reading t)) = ''CRITICAL''" "auto_shutoff (cfg_valve cfg)"
    and ok: "snd (emergency_shutoff (cfg_valve cfg) (valve sys)) = None"
  shows "\<exists>sys'. main_loop_from cfg sys lv (t # ts)
           = (sys',
              [EmergencyShutoff None]
              @ (if 1 / 2 \<le> tick_time t - last_ai_check lv \<and> obd_latest t ''timestamp'' \<noteq> None
                 then [Inference (snd (snd (run_inference (cfg_ai cfg) (ai_engine sys) (rng sys)
                                               (obd_latest t))))]
                 else [])
              @ (if 2 \<le> tick_time t - last_display lv
                 then [DisplayStatus (snd (snd (gas_reading_display t)))
                         (get_latest_result (ai_engine sys')) False True]
                 else []))
         \<and> emergency_shutdown sys' \<and> \<not> valve_open (valve sys')"
proof -
  let ?v1 = "fst (emergency_shutoff (cfg_valve cfg) (valve sys))"
  let ?sys1 = "sys\<lparr>valve := ?v1, emergency_shutdown := True\<rparr>"
  have closed: "\<not> valve_open ?v1" using ok by (rule emergency_shutoff_closes)
  have chk: "check_gas_safety cfg sys t = (?sys1, [EmergencyShutoff None])"
    using crit ok run(2)
    by (cases "gas_reading t"; cases "emergency_shutoff (cfg_valve cfg) (valve sys)")
       (simp add: check_gas_safety_def)
  define now where "now = tick_time t"
  define lv1 where "lv1 = lv\<lparr>last_gas_check := now\<rparr>"
  define r where "r = run_inference (cfg_ai cfg) (ai_engine sys) (rng sys) (obd_latest t)"
  define sys' where "sys' =
    (if 1 / 2 \<le> now - last_ai_check lv \<and> obd_latest t ''timestamp'' \<noteq> None
     then ?sys1\<lparr>ai_engine := fst r, rng := fst (snd r)\<rparr> else ?sys1)"
  define lv2 where "lv2 = (if 1 / 2 \<le> now - last_ai_check lv then lv1\<lparr>last_ai_check := now\<rparr> else lv1)"
  define evA where "evA =
    (if 1 / 2 \<le> now - last_ai_check lv \<and> obd_latest t ''timestamp'' \<noteq> None
     then [Inference (snd (snd r))] else [])"
  define lv' where "lv' = (if 2 \<le> now - last_display lv then lv2\<lparr>last_display := now\<rparr> else lv2)"
  define evD where "evD =
    (if 2 \<le> now - last_display lv
     then [DisplayStatus (snd (snd (gas_reading_display t))) (get_latest_result (ai_engine sys'))
             False True]
     else [])"
  have flag: "emergency_shutdown sys'" and v: "valve sys' = ?v1"
    by (simp_all add: sys'_def)
  have s1: "(if 1 / 10 \<le> now - last_gas_check lv
             then (let (s', ev) = check_gas_safety cfg sys t
                   in (s', lv\<lparr>last_gas_check := now\<rparr>, ev))
             else (sys, lv, [])) = (?sys1, lv1, [EmergencyShutoff None])"
    using due chk by (simp add: now_def lv1_def)
  have s2: "(if 1 / 2 \<le> now - last_ai_check lv1
             then (let (s', ev) = run_ai_inference cfg ?sys1 t
                   in (s', lv1\<lparr>last_ai_check := now\<rparr>, ev))
             else (?sys1, lv1, [])) = (sys', lv2, evA)"
    by (simp add: lv1_def lv2_def sys'_def evA_def r_def run_ai_inference_def Let_def split_beta)
  have s3: "(if 2 \<le> now - last_display lv2
             then (let (s', ev) = display_status cfg sys' t
                   in (s', lv2\<lparr>last_display := now\<rparr>, ev))
             else (sys', lv2, [])) = (sys', lv', evD)"
    using flag v closed
    by (simp add: lv1_def lv2_def lv'_def evD_def display_status_def is_open_def split_beta)
  have b: "main_loop_body cfg sys lv t = (sys', lv', [EmergencyShutoff None] @ evA @ evD)"
    unfolding main_loop_body_def Let_def now_def[symmetric] s1[unfolded Let_def] prod.case
      s2[unfolded Let_def] s3[unfolded Let_def] by (rule refl)
  define ev where "ev = [EmergencyShutoff None] @ evA @ evD"
  have ev: "ev = [EmergencyShutoff None]
              @ (if 1 / 2 \<le> tick_time t - last_ai_check lv \<and> obd_latest t ''timestamp'' \<noteq> None
                 then [Inference (snd (snd (run_inference (cfg_ai cfg) (ai_engine sys) (rng sys)
                                               (obd_latest t))))]
                 else [])
              @ (if 2 \<le> tick_time t - last_display lv
                 then [DisplayStatus (snd (snd (gas_reading_display t)))
                         (get_latest_result (ai_engine sys')) False True]
                 else [])"
    by (simp add: ev_def evA_def evD_def now_def r_def)
  note b = b[folded ev_def]
  from flag have "main_loop_from cfg sys' lv' ts = (sys', [])"
    by (simp add: main_loop_from_stopped)
  with run b have "main_loop_from cfg sys lv (t # ts) = (sys', ev)" by simp
  with ev flag v closed show ?thesis by simp
qed

subsection \<open>Claims about the valve and the loop\<close>




text \<open>
  Claim C3 as amended: with the emergency flag set the loop runs no iteration, hence no
  gas check, no inference and no status report. The iteration whose gas check sets the
  flag (the check is due, the reading is \<open>CRITICAL\<close>, automatic shutoff is on and
  \<open>emergency_shutoff\<close> returns) is completed and is the last one: its events are the
  shutoff, then an inference if the inference interval has elapsed and telemetry carries a
  timestamp, then a status report if the display interval has elapsed, showing the valve
  closed and the flag set. Neither an iteration nor \<open>stop\<close> clears the flag.
\<close>

theorem loop_exits_once_emergency_set:
  "(emergency_shutdown sys \<longrightarrow> main_loop_from cfg sys lv ts = (sys, []))
   \<and> (running sys \<and> \<not> emergency_shutdown sys
        \<and> emergency_shutdown (fst (main_loop_body cfg sys lv t)) \<longrightarrow>
          main_loop_from cfg sys lv (t # ts)
            = (fst (main_loop_body cfg sys lv t), snd (snd (main_loop_body cfg sys lv t))))
   \<and> (running sys \<and> \<not> emergency_shutdown sys
        \<and> 1 / 10 \<le> tick_time t - last_gas_check lv
        \<and> snd (snd (gas_reading t)) = ''CRITICAL'' \<and> auto_shutoff (cfg_valve cfg)
        \<and> snd (emergency_shutoff (cfg_valve cfg) (valve sys)) = None \<longrightarrow>
          (\<exists>sys'. main_loop_from cfg sys lv (t # ts)
             = (sys',
                [EmergencyShutoff None]
                @ (if 1 / 2 \<le> tick_time t - last_ai_check lv \<and> obd_latest t ''timestamp'' \<noteq> None
                   then [Inference (snd (snd (run_inference (cfg_ai cfg) (ai_engine sys) (rng sys)
                                                 (obd_latest t))))]
                   else [])
                @ (if 2 \<le> tick_time t - last_display lv
                   then [DisplayStatus (snd (snd (gas_reading_display t)))
                           (get_latest_result (ai_engine sys')) False True]
                   else []))
           \<and> emergency_shutdown sys' \<and> \<not> valve_open (valve sys')))
   \<and> (emergency_shutdown sys \<longrightarrow>
          emergency_shutdown (fst (main_loop_body cfg sys lv t))
          \<and> emergency_shutdown (stop cfg sys))"
proof (intro conjI impI)
  assume "emergency_shutdown sys"
  then show "main_loop_from cfg sys lv ts = (sys, [])" by (simp add: main_loop_from_stopped)
next
  assume a: "running sys \<and> \<not> emergency_shutdown sys
        \<and> emergency_shutdown (fst (main_loop_body cfg sys lv t))"
  obtain sys' lv' ev where b: "main_loop_body cfg sys lv t = (sys', lv', ev)"
    by (metis prod_cases3)
  with a have "main_loop_from cfg sys' lv' ts = (sys', [])"
    by (simp add: main_loop_from_stopped)
  with a b show "main_loop_from cfg sys lv (t # ts)
            = (fst (main_loop_body cfg sys lv t), snd (snd (main_loop_body cfg sys lv t)))"
    by simp
next
  assume a: "running sys \<and> \<not> emergency_shutdown sys
        \<and> 1 / 10 \<le> tick_time t - last_gas_check lv
        \<and> snd (snd (gas_reading t)) = ''CRITICAL'' \<and> auto_shutoff (cfg_valve cfg)
        \<and> snd (emergency_shutoff (cfg_valve cfg) (valve sys)) = None"
  then show "\<exists>sys'. main_loop_from cfg sys lv (t # ts)
             = (sys',
                [EmergencyShutoff None]
                @ (if 1 / 2 \<le> tick_time t - last_ai_check lv \<and> obd_latest t ''timestamp'' \<noteq> None
                   then [Inference (snd (snd (run_inference (cfg_ai cfg) (ai_engine sys) (rng sys)
                                                 (obd_latest t))))]
                   else [])
                @ (if 2 \<le> tick_time t - last_display lv
                   then [DisplayStatus (snd (snd (gas_reading_display t)))
                           (get_latest_result (ai_engine sys')) False True]
                   else []))
           \<and> emergency_shutdown sys' \<and> \<not> valve_open (valve sys')"
    by (intro flag_setting_iteration) simp_all
next
  assume e: "emergency_shutdown sys"
  show "emergency_shutdown (fst (main_loop_body cfg sys lv t))"
    by (cases rule: main_loop_body_effect[of cfg sys lv t]) (use e in simp_all)
  show "emergency_shutdown (stop cfg sys)" using e by (simp add: stop_def)
qed

theorem loop_exits_once_emergency_set_witness:
  "emergency_shutdown
     (fst (main_loop_body CONFIG (snd (start CONFIG True gpio_works fixed_rng))
        \<lparr>last_gas_check = 0, last_ai_check = 0, last_display = 0\<rparr>
        (tick_at 100 (500, 500, ''CRITICAL''))))
   \<and> main_loop_from CONFIG (snd (start CONFIG True gpio_works fixed_rng))
        \<lparr>last_gas_check = 0, last_ai_check = 0, last_display = 0\<rparr>
        [tick_at 100 (500, 500, ''CRITICAL''), tick_at 103 (500, 500, ''CRITICAL'')]
       = (fst (main_loop_body CONFIG (snd (start CONFIG True gpio_works fixed_rng))
                \<lparr>last_gas_check = 0, last_ai_check = 0, last_display = 0\<rparr>
                (tick_at 100 (500, 500, ''CRITICAL''))),
          snd (snd (main_loop_body CONFIG (snd (start CONFIG True gpio_works fixed_rng))
                \<lparr>last_gas_check = 0, last_ai_check = 0, last_display = 0\<rparr>
                (tick_at 100 (500, 500, ''CRITICAL'')))))
   \<and> (\<exists>sys'. main_loop_from CONFIG (snd (start CONFIG True gpio_works fixed_rng))
        \<lparr>last_gas_check = 0, last_ai_check = 0, last_display = 0\<rparr>
        [tick_at 100 (500, 500, ''CRITICAL''), tick_at 103 (500, 500, ''CRITICAL'')]
       = (sys', [EmergencyShutoff None, Inference (1 / 1530, ''NORMAL''),
                 DisplayStatus ''CRITICAL'' (get_latest_result (ai_engine sys')) False True]))"
proof -
  let ?sys = "snd (start CONFIG True gpio_works fixed_rng)"
  let ?lv = "\<lparr>last_gas_check = 0, last_ai_check = 0, last_display = 0\<rparr>"
  let ?t = "tick_at 100 (500, 500, ''CRITICAL'')"
  let ?ts = "[tick_at 103 (500, 500, ''CRITICAL'')]"
  have h: "running ?sys \<and> \<not> emergency_shutdown ?sys
      \<and> emergency_shutdown (fst (main_loop_body CONFIG ?sys ?lv ?t))"
    by code_simp
  have k: "running ?sys \<and> \<not> emergency_shutdown ?sys
        \<and> 1 / 10 \<le> tick_time ?t - last_gas_check ?lv
        \<and> snd (snd (gas_reading ?t)) = ''CRITICAL'' \<and> auto_shutoff (cfg_valve CONFIG)
        \<and> snd (emergency_shutoff (cfg_valve CONFIG) (valve ?sys)) = None"
    by code_simp
  have ai: "1 / 2 \<le> tick_time ?t - last_ai_check ?lv \<and> obd_latest ?t ''timestamp'' \<noteq> None"
    by code_simp
  have d: "2 \<le> tick_time ?t - last_display ?lv" by code_simp
  have r: "snd (snd (run_inference (cfg_ai CONFIG) (ai_engine ?sys) (rng ?sys) (obd_latest ?t)))
      = (1 / 1530, ''NORMAL'')"
    by code_simp
  have g: "snd (snd (gas_reading_display ?t)) = ''CRITICAL''" by code_simp
  from loop_exits_once_emergency_set[THEN conjunct2, THEN conjunct2, THEN conjunct1, THEN mp,
      OF k, of ?ts]
  obtain sys' where "main_loop_from CONFIG ?sys ?lv (?t # ?ts)
             = (sys',
                [EmergencyShutoff None]
                @ (if 1 / 2 \<le> tick_time ?t - last_ai_check ?lv \<and> obd_latest ?t ''timestamp'' \<noteq> None
                   then [Inference (snd (snd (run_inference (cfg_ai CONFIG) (ai_engine ?sys) (rng ?sys)
                                                 (obd_latest ?t))))]
                   else [])
                @ (if 2 \<le> tick_time ?t - last_display ?lv
                   then [DisplayStatus (snd (snd (gas_reading_display ?t)))
                           (get_latest_result (ai_engine sys')) False True]
                   else []))"
    by (elim exE conjE)
  then have "main_loop_from CONFIG ?sys ?lv (?t # ?ts)
       = (sys', [EmergencyShutoff None, Inference (1 / 1530, ''NORMAL''),
                 DisplayStatus ''CRITICAL'' (get_latest_result (ai_engine sys')) False True])"
    by (simp only: ai[THEN conjunct1] ai[THEN conjunct2] d r g simp_thms if_True append_Cons append_Nil)
  then have e: "\<exists>sys'. main_loop_from CONFIG ?sys ?lv (?t # ?ts)
       = (sys', [EmergencyShutoff None, Inference (1 / 1530, ''NORMAL''),
                 DisplayStatus ''CRITICAL'' (get_latest_result (ai_engine sys')) False True])"
    by (rule exI[of _ sys'])
  show ?thesis
    by (intro conjI, rule h[THEN conjunct2, THEN conjunct2],
        rule loop_exits_once_emergency_set[THEN conjunct2, THEN conjunct1, THEN mp, OF h],
        rule e)
qed

text \<open>
  Claim C3 as written fails: take iterations at clock readings 100, 102, 105 and 108, the
  gas reading \<open>SAFE\<close> at the first and \<open>CRITICAL\<close> from the second on. The second
  iteration calls the shutoff and then still runs an inference; its status report is the
  last one, although the display interval of two seconds elapses again before each of the
  two later clock readings.
\<close>

theorem no_status_report_after_emergency_counterexample:
  "snd (run_system CONFIG True gpio_works fixed_rng
        [tick_at 100 (50, 50, ''SAFE''), tick_at 102 (500, 500, ''CRITICAL''),
         tick_at 105 (500, 500, ''CRITICAL''), tick_at 108 (500, 500, ''CRITICAL'')])
     = [Inference (1 / 1530, ''NORMAL''),
        DisplayStatus ''SAFE'' (1 / 1530, ''NORMAL'') True False,
        EmergencyShutoff None,
        Inference (1 / 1530, ''NORMAL''),
        DisplayStatus ''CRITICAL'' (1 / 1530, ''NORMAL'') False True]"
  by code_simp




text \<open>
  The calls repeat while the GPIO module raises: after a failed set-up every write raises,
  each gas check (here 0.1 s apart) calls \<open>emergency_shutoff\<close> again, the flag is never
  set and the valve state stays open.
\<close>

lemma shutoff_repeated_while_gpio_raises:
  "snd (run_system CONFIG True gpio_broken fixed_rng
        [tick_at 100 (500, 500, ''CRITICAL''), tick_at (1001 / 10) (500, 500, ''CRITICAL''),
         tick_at (1002 / 10) (500, 500, ''CRITICAL'')])
     = [EmergencyShutoff (Some RuntimeError), Inference (1 / 1530, ''NORMAL''),
        DisplayStatus ''CRITICAL'' (1 / 1530, ''NORMAL'') True False,
        EmergencyShutoff (Some RuntimeError), EmergencyShutoff (Some RuntimeError)]
   \<and> valve_open (valve (fst (run_system CONFIG True gpio_broken fixed_rng
        [tick_at 100 (500, 500, ''CRITICAL''), tick_at (1001 / 10) (500, 500, ''CRITICAL''),
         tick_at (1002 / 10) (500, 500, ''CRITICAL'')])))"
  by code_simp

end
